theory Spec2Isabelle
  imports Complex_Main "HOL-Library.AList" "HOL-Library.Log_Nat"
begin

section \<open>AstroVoice: proximity voice chat (script.js)\<close>

text \<open>
  The development follows the classes of \<^verbatim>\<open>script.js\<close>. A JavaScript number is a
  \<^typ>\<open>real\<close>, and the arithmetic of the distance and volume formulas is the exact one,
  except in \<open>volumeFromDistance_double\<close>, which rounds every operation as a double does
  and is the function where a property depends on the rounding. A JavaScript \<^verbatim>\<open>Map\<close> is an
  association list with distinct keys in insertion order (\<^const>\<open>map_of\<close> is \<^verbatim>\<open>get\<close>,
  \<^const>\<open>AList.update\<close> is \<^verbatim>\<open>set\<close>, \<^const>\<open>AList.delete\<close> is \<^verbatim>\<open>delete\<close>).
\<close>

subsection \<open>DistanceCalculator\<close>

record location =
  loc_x :: real
  loc_y :: real
  loc_z :: real

record DistanceCalculator =
  maxDistance :: real

definition calculate :: "location \<Rightarrow> location \<Rightarrow> real" where
  "calculate pos1 pos2 =
     (let dx = loc_x pos1 - loc_x pos2;
          dy = loc_y pos1 - loc_y pos2;
          dz = loc_z pos1 - loc_z pos2
      in sqrt (dx * dx + dy * dy + dz * dz))"

text \<open>
  \<^verbatim>\<open>if (distance > this.maxDistance) return 0;
  return Math.pow(1 - distance / this.maxDistance, 2);\<close>
\<close>

definition volumeFromDistance :: "DistanceCalculator \<Rightarrow> real \<Rightarrow> real" where
  "volumeFromDistance dc distance =
     (if distance > maxDistance dc then 0
      else (1 - distance / maxDistance dc) ^ 2)"

subsection \<open>DistanceCalculator in double arithmetic\<close>

text \<open>
  A finite double is a real number. \<open>double_round\<close> is the rounding every arithmetic
  operation of JavaScript ends with: to the nearest number with a significand of 53 bits,
  a tie going to the even significand, with the subnormal numbers (multiples of
  \<open>2 powi - 1074\<close>) at the bottom. \<open>exponent x\<close> is the integer \<open>e\<close> with
  \<open>2 powi e \<le> x < 2 powi (e + 1)\<close>, for a positive \<open>x\<close>. Overflow to \<^verbatim>\<open>Infinity\<close>,
  \<^verbatim>\<open>NaN\<close> and the sign of zero are not represented: for a distance \<open>d \<ge> 0\<close> and a
  \<open>maxDistance\<close> above 0 every value computed below lies between 0 and 1.
\<close>

definition roundTiesToEven :: "real \<Rightarrow> int" where
  "roundTiesToEven x =
     (let f = \<lfloor>x\<rfloor>; r = x - of_int f
      in if r < 1 / 2 then f else if 1 / 2 < r then f + 1 else if even f then f else f + 1)"

definition exponent :: "real \<Rightarrow> int" where
  "exponent x = (if 1 \<le> x then bitlen \<lfloor>x\<rfloor> - 1 else - bitlen (\<lceil>1 / x\<rceil> - 1))"

definition double_round :: "real \<Rightarrow> real" where
  "double_round x =
     (if x = 0 then 0
      else
        let e = max (exponent \<bar>x\<bar> - 52) (- 1074)
        in sgn x * (of_int (roundTiesToEven (\<bar>x\<bar> / 2 powi e)) * 2 powi e))"

text \<open>
  \<^verbatim>\<open>Math.pow(x, 2)\<close> is approximated as the implementation chooses, so it is the parameter
  \<open>sq\<close> of the model; \<open>double_square\<close> is the correctly rounded square.
\<close>

definition double_square :: "real \<Rightarrow> real" where
  "double_square x = double_round (x * x)"

text \<open>
  \<open>volumeFromDistance\<close> as the code computes it: the quotient is rounded, then the
  difference, then the power.
\<close>

definition volumeFromDistance_double :: "(real \<Rightarrow> real) \<Rightarrow> DistanceCalculator \<Rightarrow> real \<Rightarrow> real" where
  "volumeFromDistance_double sq dc distance =
     (if distance > maxDistance dc then 0
      else sq (double_round (1 - double_round (distance / maxDistance dc))))"

subsection \<open>Audio objects of the host\<close>

text \<open>
  Gain nodes, audio elements and media sources are objects of the browser. Each is named
  by a number, and the attributes the code writes are kept in a store, so that two
  references to one object see the same value. The setters are plain writes.
\<close>

record audio_host =
  gain_value :: "nat \<Rightarrow> real"
  element_volume :: "nat \<Rightarrow> real"
  sources_disconnected :: "nat set"
  gains_disconnected :: "nat set"
  elements_removed :: "nat set"

record nodeData =
  nd_gainNode :: "nat option"
  nd_audioElement :: "nat option"
  nd_source :: "nat option"

subsection \<open>Participant\<close>

text \<open>The field \<^verbatim>\<open>skinUrl\<close> is a constant of the gamertag and only read by the display.\<close>

record Participant =
  gamertag :: string
  isSelf :: bool
  distance :: real
  volume :: real
  gainNode :: "nat option"
  audioElement :: "nat option"
  source :: "nat option"
  customVolume :: real

definition new_Participant :: "string \<Rightarrow> bool \<Rightarrow> Participant" where
  "new_Participant g self =
     \<lparr>gamertag = g, isSelf = self, distance = 0, volume = 1, gainNode = None,
      audioElement = None, source = None, customVolume = 1\<rparr>"

definition setAudioNodes ::
  "nat option \<Rightarrow> nat option \<Rightarrow> nat option \<Rightarrow> Participant \<Rightarrow> Participant" where
  "setAudioNodes gn ae src p = p\<lparr>gainNode := gn, audioElement := ae, source := src\<rparr>"

definition setCustomVolume :: "real \<Rightarrow> Participant \<Rightarrow> Participant" where
  "setCustomVolume v p = p\<lparr>customVolume := v\<rparr>"

text \<open>
  \<^verbatim>\<open>const finalVolume = newVolume * this.customVolume; this.volume = finalVolume;
  if (this.gainNode) this.gainNode.gain.value = finalVolume;
  else if (this.audioElement) this.audioElement.volume = finalVolume;\<close>
\<close>

definition updateVolume :: "real \<Rightarrow> Participant \<Rightarrow> audio_host \<Rightarrow> Participant \<times> audio_host" where
  "updateVolume newVolume p host =
     (let finalVolume = newVolume * customVolume p;
          p' = p\<lparr>volume := finalVolume\<rparr>
      in case gainNode p of
           Some gn \<Rightarrow> (p', host\<lparr>gain_value := (gain_value host)(gn := finalVolume)\<rparr>)
         | None \<Rightarrow>
             (case audioElement p of
                Some ae \<Rightarrow> (p', host\<lparr>element_volume := (element_volume host)(ae := finalVolume)\<rparr>)
              | None \<Rightarrow> (p', host)))"

definition updateDistance :: "real \<Rightarrow> Participant \<Rightarrow> Participant" where
  "updateDistance d p = p\<lparr>distance := d\<rparr>"

definition cleanup :: "Participant \<Rightarrow> audio_host \<Rightarrow> audio_host" where
  "cleanup p host =
     (let h1 = (case source p of
                  Some s \<Rightarrow> host\<lparr>sources_disconnected := insert s (sources_disconnected host)\<rparr>
                | None \<Rightarrow> host);
          h2 = (case gainNode p of
                  Some gn \<Rightarrow> h1\<lparr>gains_disconnected := insert gn (gains_disconnected h1)\<rparr>
                | None \<Rightarrow> h1)
      in case audioElement p of
           Some ae \<Rightarrow> h2\<lparr>elements_removed := insert ae (elements_removed h2)\<rparr>
         | None \<Rightarrow> h2)"

subsection \<open>ParticipantsManager\<close>

record ParticipantsManager =
  participants :: "(string \<times> Participant) list"
  pendingNodes :: "(string \<times> nodeData) list"

definition new_ParticipantsManager :: ParticipantsManager where
  "new_ParticipantsManager = \<lparr>participants = [], pendingNodes = []\<rparr>"

definition get :: "ParticipantsManager \<Rightarrow> string \<Rightarrow> Participant option" where
  "get pm g = map_of (participants pm) g"

definition has :: "ParticipantsManager \<Rightarrow> string \<Rightarrow> bool" where
  "has pm g = (map_of (participants pm) g \<noteq> None)"

definition getAll :: "ParticipantsManager \<Rightarrow> Participant list" where
  "getAll pm = map snd (participants pm)"

text \<open>
  \<^verbatim>\<open>add(gamertag, isSelf)\<close>: nothing when the gamertag is present; otherwise a new
  participant, which takes the pending nodes of that gamertag, if any. The node data is
  an object, so \<^verbatim>\<open>if (pendingData)\<close> tests its presence.
\<close>

definition add ::
  "string \<Rightarrow> bool \<Rightarrow> ParticipantsManager \<Rightarrow> audio_host \<Rightarrow> ParticipantsManager \<times> audio_host" where
  "add g self pm host =
     (if has pm g then (pm, host)
      else
        let participant = new_Participant g self
        in case map_of (pendingNodes pm) g of
             Some pendingData \<Rightarrow>
               (pm\<lparr>participants :=
                     AList.update g
                       (setAudioNodes (nd_gainNode pendingData) (nd_audioElement pendingData)
                          (nd_source pendingData) participant)
                       (participants pm),
                   pendingNodes := AList.delete g (pendingNodes pm)\<rparr>,
                case nd_gainNode pendingData of
                  Some gn \<Rightarrow> host\<lparr>gain_value := (gain_value host)(gn := 1)\<rparr>
                | None \<Rightarrow> host)
           | None \<Rightarrow> (pm\<lparr>participants := AList.update g participant (participants pm)\<rparr>, host))"

definition remove ::
  "string \<Rightarrow> ParticipantsManager \<Rightarrow> audio_host \<Rightarrow> ParticipantsManager \<times> audio_host" where
  "remove g pm host =
     (case map_of (participants pm) g of
        Some participant \<Rightarrow>
          (pm\<lparr>participants := AList.delete g (participants pm)\<rparr>, cleanup participant host)
      | None \<Rightarrow> (pm, host))"

definition clear :: "ParticipantsManager \<Rightarrow> audio_host \<Rightarrow> ParticipantsManager \<times> audio_host" where
  "clear pm host =
     (pm\<lparr>participants := [], pendingNodes := []\<rparr>,
      fold (\<lambda>(g, p) h. cleanup p h) (participants pm) host)"

definition addPendingNode :: "string \<Rightarrow> nodeData \<Rightarrow> ParticipantsManager \<Rightarrow> ParticipantsManager" where
  "addPendingNode g nd pm = pm\<lparr>pendingNodes := AList.update g nd (pendingNodes pm)\<rparr>"

text \<open>
  \<^verbatim>\<open>forEach(callback)\<close>, for a callback that changes the participant it is given and
  the audio objects: the entries are visited in insertion order.
\<close>

fun forEach ::
  "(Participant \<Rightarrow> string \<Rightarrow> audio_host \<Rightarrow> Participant \<times> audio_host) \<Rightarrow>
   (string \<times> Participant) list \<Rightarrow> audio_host \<Rightarrow> (string \<times> Participant) list \<times> audio_host" where
  "forEach callback [] host = ([], host)"
| "forEach callback ((g, p) # rest) host =
     (case callback p g host of
        (p', host') \<Rightarrow>
          (case forEach callback rest host' of
             (rest', host'') \<Rightarrow> ((g, p') # rest', host'')))"

text \<open>The mutating methods of the manager, as one step function.\<close>

datatype pm_op = Add string bool | Remove string | AddPendingNode string nodeData | Clear

fun pm_step :: "pm_op \<Rightarrow> ParticipantsManager \<Rightarrow> audio_host \<Rightarrow> ParticipantsManager \<times> audio_host" where
  "pm_step (Add g self) pm host = add g self pm host"
| "pm_step (Remove g) pm host = remove g pm host"
| "pm_step (AddPendingNode g nd) pm host = (addPendingNode g nd pm, host)"
| "pm_step Clear pm host = clear pm host"

subsection \<open>MinecraftIntegration\<close>

record playerData =
  isMuted :: bool
  isDeafened :: bool
  micVolume :: "real option"
  isUnderWater :: bool
  isInCave :: bool
  isInMountain :: bool
  isBuried :: bool
  customVolumes :: "(string \<times> real) list"

record player =
  name :: string
  location :: location
  data :: playerData

record MinecraftIntegration =
  distanceCalculator :: DistanceCalculator
  remoteMuted :: bool
  remoteDeafened :: bool

text \<open>
  Names are compared as \<^verbatim>\<open>s.trim().toLowerCase()\<close>. That function of the host is the
  parameter \<open>nrm\<close> of the model, so a property holds for every such function;
  \<open>normName\<close> below is the one of ASCII text.
\<close>

definition toLowerCase :: "string \<Rightarrow> string" where
  "toLowerCase s =
     map (\<lambda>c. case map_of (zip ''ABCDEFGHIJKLMNOPQRSTUVWXYZ'' ''abcdefghijklmnopqrstuvwxyz'') c of
                 Some l \<Rightarrow> l
               | None \<Rightarrow> c) s"

definition trim :: "string \<Rightarrow> string" where
  "trim s =
     (let ws = (\<lambda>c. c \<in> set [CHR '' '', CHR 0x09, CHR 0x0A, CHR 0x0B, CHR 0x0C, CHR 0x0D])
      in rev (dropWhile ws (rev (dropWhile ws s))))"

definition normName :: "string \<Rightarrow> string" where
  "normName s = toLowerCase (trim s)"

text \<open>\<^verbatim>\<open>playersList.find((pl) => pl.name.trim().toLowerCase() === gamertag.trim().toLowerCase())\<close>\<close>

definition findPlayer :: "(string \<Rightarrow> string) \<Rightarrow> string \<Rightarrow> player list \<Rightarrow> player option" where
  "findPlayer nrm g playersList = find (\<lambda>pl. nrm (name pl) = nrm g) playersList"

text \<open>The body of the callback of \<^verbatim>\<open>updateParticipantVolumes\<close>.\<close>

definition updateParticipantVolume ::
  "(string \<Rightarrow> string) \<Rightarrow> MinecraftIntegration \<Rightarrow> player \<Rightarrow> player list \<Rightarrow>
   Participant \<Rightarrow> string \<Rightarrow> audio_host \<Rightarrow> Participant \<times> audio_host" where
  "updateParticipantVolume nrm mc myPlayer playersList participant g host =
     (if isSelf participant then (participant, host)
      else
        case findPlayer nrm g playersList of
          Some otherPlayer \<Rightarrow>
            if isMuted (data otherPlayer)
            then updateVolume 0 (updateDistance 0 participant) host
            else if remoteDeafened mc
            then updateVolume 0 participant host
            else
              let d = calculate (location myPlayer) (location otherPlayer);
                  v = volumeFromDistance (distanceCalculator mc) d
              in updateVolume v (updateDistance d participant) host
        | None \<Rightarrow> updateVolume 0 participant host)"

definition updateParticipantVolumes ::
  "(string \<Rightarrow> string) \<Rightarrow> MinecraftIntegration \<Rightarrow> player \<Rightarrow> player list \<Rightarrow>
   ParticipantsManager \<Rightarrow> audio_host \<Rightarrow> ParticipantsManager \<times> audio_host" where
  "updateParticipantVolumes nrm mc myPlayer playersList pm host =
     (case forEach (updateParticipantVolume nrm mc myPlayer playersList) (participants pm) host of
        (ps, host') \<Rightarrow> (pm\<lparr>participants := ps\<rparr>, host'))"

subsection \<open>Signaling messages and what the code does to its surroundings\<close>

text \<open>
  A signaling message is a JSON object with a \<^verbatim>\<open>type\<close>; the fields of each type are those
  the senders in \<^verbatim>\<open>script.js\<close> put there. A session description and a candidate are
  opaque values of the browser.
\<close>

datatype sdp = SdpOffer nat | SdpAnswer nat

type_synonym candidate = nat

type_synonym track = nat

datatype signal =
    Join string
  | Leave string
  | Offer string string sdp
  | Answer string string sdp
  | IceCandidate string string "candidate option"
  | RequestParticipants
  | ParticipantsList "string list"
  | Heartbeat string
  | PttStatus string bool bool
  | MinecraftUpdate

datatype signaling_state =
  Stable | HaveLocalOffer | HaveRemoteOffer | HaveLocalPranswer | HaveRemotePranswer | SignalingClosed

datatype connection_state = ConnNew | Connecting | Connected | Disconnected | Failed | ConnClosed

text \<open>
  The lines written to the console by the connection manager, the effects manager and the
  signaling handler. The line \<open>add\<close> writes when it assigns pending nodes is not recorded.
\<close>

datatype log =
    AlreadyExists string
  | ConnectingTo string
  | SkipInitialConnection string
  | RenegotiationNeeded string
  | SkipSignalingState string signaling_state
  | RenegotiationOfferSent string
  | RenegotiationFailed string
  | ConnectionState string connection_state
  | PeerDisconnected string
  | ConnectionFailed string
  | ConnectionEstablished string
  | MaxReconnectAttempts string
  | ReconnectionAttempt string nat
  | ReconnectionFailed string
  | ReconnectingAll
  | NoPeersToReconnect
  | PeersToReconnect "string list"
  | ReconnectingWith string
  | FailedToReconnect string
  | ReconnectionComplete
  | ConnectionClosed string
  | JoinedRoom string
  | LeftRoom string
  | TriggeringReconnection
  | ReceivedOffer string
  | SentAnswer string
  | ReceivedAnswer string
  | AnswerApplied string
  | ReceivedParticipantsList "string list"
  | ErrorInSignaling
  | NoInputNode
  | ChangingEffect string string
  | TrackReplaced string string
  | ErrorReplacingTrack string
  | EffectApplied nat

text \<open>
  What a function does to the browser, the socket and the clock, in the order it does it:
  the calls of the negotiation primitive, the messages sent, the timed waits.
\<close>

datatype event =
    Log log
  | WsSend signal
  | Delay nat
  | NewRTCPeerConnection string
  | AddTrack string track
  | PcClose string
  | CreateOffer string
  | CreateAnswer string
  | SetLocalDescription string sdp
  | SetRemoteDescription string sdp
  | AddIceCandidate string candidate
  | ProcessUpdateAfter nat
  | CreateMediaStreamDestination track
  | ReplaceTrack string track
  | UpdateUI

subsection \<open>RTCPeerConnection and the negotiation primitive\<close>

text \<open>
  The fields of a connection that the code reads or writes, with the two flags
  \<^verbatim>\<open>_isInitialConnection\<close> and \<^verbatim>\<open>_reconnectAttempts\<close> it stores on the object. A sender
  holds an audio track or none.
\<close>

record RTCPeerConnection =
  isInitialConnection :: bool
  reconnectAttempts :: nat
  signalingState :: signaling_state
  connectionState :: connection_state
  senders :: "track option list"

text \<open>
  The negotiation primitive of the browser is a parameter: each call may throw (\<open>None\<close>,
  \<open>False\<close>), and a description that is set gives the next signaling state.
\<close>

record transport =
  createOffer :: "string \<Rightarrow> RTCPeerConnection \<Rightarrow> sdp option"
  createAnswer :: "string \<Rightarrow> RTCPeerConnection \<Rightarrow> sdp option"
  setLocalDescription :: "string \<Rightarrow> RTCPeerConnection \<Rightarrow> sdp \<Rightarrow> signaling_state option"
  setRemoteDescription :: "string \<Rightarrow> RTCPeerConnection \<Rightarrow> sdp \<Rightarrow> signaling_state option"
  addIceCandidate :: "string \<Rightarrow> RTCPeerConnection \<Rightarrow> candidate \<Rightarrow> bool"
  replaceTrack :: "string \<Rightarrow> RTCPeerConnection \<Rightarrow> track \<Rightarrow> bool"

subsection \<open>AudioEffectsManager\<close>

datatype dsp = FeedbackDelay | Reverb | EQ3 | Filter | LFO | Gain | Gate | Compressor

text \<open>
  The output stream is named by its audio track. Of the effect graph the model keeps the
  nodes created for the effect (\<^verbatim>\<open>dynamicNodes\<close>), not their wiring.
\<close>

record AudioEffectsManager =
  dynamicNodes :: "dsp list"
  currentEffect :: string
  inputNode :: "nat option"
  processedStream :: "track option"
  lastEffectChange :: int

definition new_AudioEffectsManager :: AudioEffectsManager where
  "new_AudioEffectsManager =
     \<lparr>dynamicNodes = [], currentEffect = ''none'', inputNode = None, processedStream = None,
      lastEffectChange = 0\<rparr>"

definition getProcessedStream :: "AudioEffectsManager \<Rightarrow> track option" where
  "getProcessedStream ae = processedStream ae"

definition getCurrentEffect :: "AudioEffectsManager \<Rightarrow> string" where
  "getCurrentEffect ae = currentEffect ae"

subsection \<open>WebRTCManager\<close>

text \<open>
  \<open>ws\<close> is the \<^verbatim>\<open>readyState\<close> of the socket, \<open>None\<close> when the field is null; an open
  socket has state 1. An \<^verbatim>\<open>async\<close> function is run to its end in one step: what other
  handlers do while it waits is not part of the model.
\<close>

record WebRTCManager =
  peerConnections :: "(string \<times> RTCPeerConnection) list"
  ws :: "nat option"
  currentGamertag :: string

definition getPeerConnection :: "WebRTCManager \<Rightarrow> string \<Rightarrow> RTCPeerConnection option" where
  "getPeerConnection w g = map_of (peerConnections w) g"

text \<open>
  A connection is an object: a write to one of its fields is seen through the registry.
  \<open>storeConnection\<close> puts the changed connection back under its gamertag
  (\<^verbatim>\<open>this.peerConnections.set\<close> for a new one).
\<close>

definition storeConnection :: "string \<Rightarrow> RTCPeerConnection \<Rightarrow> WebRTCManager \<Rightarrow> WebRTCManager" where
  "storeConnection g pc w = w\<lparr>peerConnections := AList.update g pc (peerConnections w)\<rparr>"

text \<open>\<^verbatim>\<open>if (this.ws && this.ws.readyState === 1) this.ws.send(JSON.stringify(msg))\<close>\<close>

definition sendIfOpen :: "WebRTCManager \<Rightarrow> signal \<Rightarrow> event list" where
  "sendIfOpen w msg = (if ws w = Some 1 then [WsSend msg] else [])"

text \<open>
  The connection that \<open>createPeerConnection\<close> builds: a new \<^verbatim>\<open>RTCPeerConnection\<close> (signaling
  state stable, connection state new), the two flags set, and the tracks of the processed
  stream added.
\<close>

definition localTracks :: "AudioEffectsManager \<Rightarrow> track list" where
  "localTracks ae = (case getProcessedStream ae of Some t \<Rightarrow> [t] | None \<Rightarrow> [])"

definition new_RTCPeerConnection :: "AudioEffectsManager \<Rightarrow> RTCPeerConnection" where
  "new_RTCPeerConnection ae =
     \<lparr>isInitialConnection = True, reconnectAttempts = 0, signalingState = Stable,
      connectionState = ConnNew, senders = map Some (localTracks ae)\<rparr>"

definition createPeerConnection ::
  "AudioEffectsManager \<Rightarrow> string \<Rightarrow> WebRTCManager \<Rightarrow> RTCPeerConnection \<times> WebRTCManager \<times> event list" where
  "createPeerConnection ae remoteGamertag w =
     (case map_of (peerConnections w) remoteGamertag of
        Some pc \<Rightarrow> (pc, w, [Log (AlreadyExists remoteGamertag)])
      | None \<Rightarrow>
          let pc = new_RTCPeerConnection ae
          in (pc,
              storeConnection remoteGamertag pc w,
              NewRTCPeerConnection remoteGamertag # map (AddTrack remoteGamertag) (localTracks ae)
                @ [Log (ConnectingTo remoteGamertag)]))"

definition closePeerConnection :: "string \<Rightarrow> WebRTCManager \<Rightarrow> WebRTCManager \<times> event list" where
  "closePeerConnection g w =
     (case map_of (peerConnections w) g of
        Some pc \<Rightarrow>
          (w\<lparr>peerConnections := AList.delete g (peerConnections w)\<rparr>,
           [PcClose g, Log (ConnectionClosed g)])
      | None \<Rightarrow> (w, []))"

text \<open>
  \<^verbatim>\<open>this.peerConnections.forEach((pc, gamertag) => this.closePeerConnection(gamertag))\<close>:
  every entry present at the start is closed, in insertion order.
\<close>

definition closeAllConnections :: "WebRTCManager \<Rightarrow> WebRTCManager \<times> event list" where
  "closeAllConnections w =
     fold (\<lambda>g (w', ev). case closePeerConnection g w' of (w'', ev') \<Rightarrow> (w'', ev @ ev'))
       (map fst (peerConnections w)) (w, [])"

text \<open>
  \<^verbatim>\<open>const offer = await pc.createOffer(); await pc.setLocalDescription(offer);\<close> The
  third component is \<open>None\<close> when one of the two calls throws.
\<close>

definition originateOffer ::
  "transport \<Rightarrow> string \<Rightarrow> RTCPeerConnection \<Rightarrow> RTCPeerConnection \<times> event list \<times> sdp option" where
  "originateOffer t g pc =
     (case createOffer t g pc of
        None \<Rightarrow> (pc, [CreateOffer g], None)
      | Some offer \<Rightarrow>
          (case setLocalDescription t g pc offer of
             None \<Rightarrow> (pc, [CreateOffer g, SetLocalDescription g offer], None)
           | Some s \<Rightarrow>
               (pc\<lparr>signalingState := s\<rparr>, [CreateOffer g, SetLocalDescription g offer], Some offer)))"

text \<open>
  The handlers that \<open>createPeerConnection\<close> installs on a connection act on the
  connection registered under the gamertag: a connection is closed only by
  \<open>closePeerConnection\<close>, which removes it at once.
\<close>

definition onnegotiationneeded ::
  "transport \<Rightarrow> string \<Rightarrow> WebRTCManager \<Rightarrow> WebRTCManager \<times> event list" where
  "onnegotiationneeded t remoteGamertag w =
     (case map_of (peerConnections w) remoteGamertag of
        None \<Rightarrow> (w, [])
      | Some pc \<Rightarrow>
          if isInitialConnection pc then (w, [Log (SkipInitialConnection remoteGamertag)])
          else if signalingState pc \<noteq> Stable
          then (w, [Log (RenegotiationNeeded remoteGamertag),
                    Log (SkipSignalingState remoteGamertag (signalingState pc))])
          else
            case originateOffer t remoteGamertag pc of
              (pc', ev, None) \<Rightarrow>
                (w, Log (RenegotiationNeeded remoteGamertag) # ev
                      @ [Log (RenegotiationFailed remoteGamertag)])
            | (pc', ev, Some offer) \<Rightarrow>
                (storeConnection remoteGamertag pc' w,
                 Log (RenegotiationNeeded remoteGamertag) # ev
                   @ (if ws w = Some 1
                      then [WsSend (Offer (currentGamertag w) remoteGamertag offer),
                            Log (RenegotiationOfferSent remoteGamertag)]
                      else [])))"

text \<open>
  \<^verbatim>\<open>attemptReconnect(remoteGamertag)\<close>. Past three attempts it returns before anything is
  closed. Otherwise the old connection is closed and removed, a second passes, a new
  connection is created and given the attempt count, and an offer is sent.
\<close>

definition attemptReconnect ::
  "transport \<Rightarrow> AudioEffectsManager \<Rightarrow> string \<Rightarrow> WebRTCManager \<Rightarrow> WebRTCManager \<times> event list" where
  "attemptReconnect t ae remoteGamertag w =
     (let attempts = (case map_of (peerConnections w) remoteGamertag of
                        Some oldPc \<Rightarrow> reconnectAttempts oldPc
                      | None \<Rightarrow> 0) + 1
      in if attempts > 3 then (w, [Log (MaxReconnectAttempts remoteGamertag)])
         else
           case closePeerConnection remoteGamertag w of
             (w1, ev1) \<Rightarrow>
               (case createPeerConnection ae remoteGamertag w1 of
                  (pc, w2, ev2) \<Rightarrow>
                    (case originateOffer t remoteGamertag (pc\<lparr>reconnectAttempts := attempts\<rparr>) of
                       (pc', ev3, sent) \<Rightarrow>
                         (storeConnection remoteGamertag pc' w2,
                          Log (ReconnectionAttempt remoteGamertag attempts) # ev1 @ [Delay 1000]
                            @ ev2 @ ev3
                            @ (case sent of
                                 Some offer \<Rightarrow>
                                   sendIfOpen w2 (Offer (currentGamertag w2) remoteGamertag offer)
                               | None \<Rightarrow> [Log (ReconnectionFailed remoteGamertag)])))))"

text \<open>
  \<^verbatim>\<open>pc.onconnectionstatechange\<close>, for the state \<open>st\<close> the browser has just given the
  connection.
\<close>

definition onconnectionstatechange ::
  "transport \<Rightarrow> AudioEffectsManager \<Rightarrow> string \<Rightarrow> connection_state \<Rightarrow> WebRTCManager \<Rightarrow>
   WebRTCManager \<times> event list" where
  "onconnectionstatechange t ae remoteGamertag st w =
     (case map_of (peerConnections w) remoteGamertag of
        None \<Rightarrow> (w, [])
      | Some pc0 \<Rightarrow>
          let w0 = storeConnection remoteGamertag (pc0\<lparr>connectionState := st\<rparr>) w;
              ev0 = Log (ConnectionState remoteGamertag st)
                      # (if st = Disconnected then [Log (PeerDisconnected remoteGamertag)] else [])
          in if st = Failed
             then (case attemptReconnect t ae remoteGamertag w0 of
                     (w1, ev1) \<Rightarrow> (w1, ev0 @ Log (ConnectionFailed remoteGamertag) # ev1))
             else if st = Connected
             then (storeConnection remoteGamertag
                     (pc0\<lparr>connectionState := st, isInitialConnection := False,
                          reconnectAttempts := 0\<rparr>) w0,
                   ev0 @ [Log (ConnectionEstablished remoteGamertag), ProcessUpdateAfter 500])
             else (w0, ev0))"

text \<open>
  \<^verbatim>\<open>reconnectAllPeers()\<close>: the loop over the gamertags collected before the connections
  were closed.
\<close>

fun reconnectEach ::
  "transport \<Rightarrow> AudioEffectsManager \<Rightarrow> string list \<Rightarrow> WebRTCManager \<Rightarrow> WebRTCManager \<times> event list" where
  "reconnectEach t ae [] w = (w, [])"
| "reconnectEach t ae (g # gs) w =
     (case createPeerConnection ae g w of
        (pc, w1, ev1) \<Rightarrow>
          (case originateOffer t g pc of
             (pc', ev2, sent) \<Rightarrow>
               (case reconnectEach t ae gs (storeConnection g pc' w1) of
                  (w2, ev3) \<Rightarrow>
                    (w2,
                     Log (ReconnectingWith g) # ev1 @ ev2
                       @ (case sent of
                            Some offer \<Rightarrow> sendIfOpen w1 (Offer (currentGamertag w1) g offer) @ [Delay 300]
                          | None \<Rightarrow> [Log (FailedToReconnect g)])
                       @ ev3))))"

definition reconnectAllPeers ::
  "transport \<Rightarrow> AudioEffectsManager \<Rightarrow> WebRTCManager \<Rightarrow> WebRTCManager \<times> event list" where
  "reconnectAllPeers t ae w =
     (let gamertags = map fst (peerConnections w)
      in if gamertags = [] then (w, [Log ReconnectingAll, Log NoPeersToReconnect])
         else
           case closeAllConnections w of
             (w1, ev1) \<Rightarrow>
               (case reconnectEach t ae gamertags w1 of
                  (w2, ev2) \<Rightarrow>
                    (w2,
                     [Log ReconnectingAll, Log (PeersToReconnect gamertags)] @ ev1 @ [Delay 500]
                       @ ev2 @ [Log ReconnectionComplete])))"

subsection \<open>AudioEffectsManager.applyEffect\<close>

text \<open>The nodes pushed to \<^verbatim>\<open>dynamicNodes\<close> by each case of the \<^verbatim>\<open>switch\<close>.\<close>

definition effectNodes :: "string \<Rightarrow> dsp list" where
  "effectNodes effect =
     (if effect = ''underwater'' then []
      else if effect = ''cave'' then [FeedbackDelay, Reverb, EQ3]
      else if effect = ''mountain'' then [FeedbackDelay, Reverb, EQ3]
      else if effect = ''buried'' then [Filter, Filter, LFO, Reverb, Gain]
      else [Gate, Filter, Filter, Compressor])"

text \<open>
  \<^verbatim>\<open>senders.find((s) => s.track && s.track.kind === "audio")\<close> and
  \<^verbatim>\<open>replaceTrack(newTrack)\<close> on the sender found: the first sender that holds a track
  gets the new one.
\<close>

fun replaceFirst :: "track \<Rightarrow> track option list \<Rightarrow> track option list" where
  "replaceFirst new [] = []"
| "replaceFirst new (None # rest) = None # replaceFirst new rest"
| "replaceFirst new (Some old # rest) = Some new # rest"

fun replaceTracks ::
  "transport \<Rightarrow> string \<Rightarrow> track \<Rightarrow> (string \<times> RTCPeerConnection) list \<Rightarrow>
   (string \<times> RTCPeerConnection) list \<times> event list \<times> nat" where
  "replaceTracks t effect newTrack [] = ([], [], 0)"
| "replaceTracks t effect newTrack ((g, pc) # rest) =
     (case replaceTracks t effect newTrack rest of
        (rest', ev, n) \<Rightarrow>
          if find (\<lambda>s. s \<noteq> None) (senders pc) = None then ((g, pc) # rest', ev, n)
          else if replaceTrack t g pc newTrack
          then ((g, pc\<lparr>senders := replaceFirst newTrack (senders pc)\<rparr>) # rest',
                ReplaceTrack g newTrack # Log (TrackReplaced g effect) # ev, Suc n)
          else ((g, pc) # rest', ReplaceTrack g newTrack # Log (ErrorReplacingTrack g) # ev, Suc n))"

text \<open>
  \<^verbatim>\<open>applyEffect(effect, peerConnections)\<close>, called at time \<open>now\<close> (\<^verbatim>\<open>Date.now()\<close>, in
  milliseconds); \<open>dest\<close> is the stream of the destination node the browser creates, and
  \<open>peerConnections\<close> is \<open>None\<close> when the caller has no connection manager.
\<close>

definition applyEffect ::
  "transport \<Rightarrow> string \<Rightarrow> (string \<times> RTCPeerConnection) list option \<Rightarrow> int \<Rightarrow> track \<Rightarrow>
   AudioEffectsManager \<Rightarrow>
   AudioEffectsManager \<times> (string \<times> RTCPeerConnection) list option \<times> event list" where
  "applyEffect t effect peerConns now dest ae =
     (if inputNode ae = None then (ae, peerConns, [Log NoInputNode])
      else if currentEffect ae = effect \<and> processedStream ae \<noteq> None then (ae, peerConns, [])
      else if processedStream ae \<noteq> None \<and> now - lastEffectChange ae < 1000 then (ae, peerConns, [])
      else
        let ae' = ae\<lparr>lastEffectChange := now, dynamicNodes := effectNodes effect,
                      processedStream := Some dest, currentEffect := effect\<rparr>;
            ev = [Log (ChangingEffect (currentEffect ae) effect), CreateMediaStreamDestination dest]
        in case peerConns of
             None \<Rightarrow> (ae', None, ev)
           | Some pcs \<Rightarrow>
               if pcs = [] then (ae', Some [], ev)
               else
                 case replaceTracks t effect dest pcs of
                   (pcs', ev', n) \<Rightarrow> (ae', Some pcs', ev @ ev' @ [Log (EffectApplied n)]))"

subsection \<open>VoiceChatApp.handleSignaling\<close>

record VoiceChatApp =
  participantsManager :: ParticipantsManager
  webrtc :: WebRTCManager
  audioEffects :: AudioEffectsManager
  audio :: audio_host
  app_ws :: "nat option"
  app_currentGamertag :: string

text \<open>
  \<^verbatim>\<open>this.ws.send(...)\<close> with no test before it: a null socket and a socket still
  connecting throw (\<open>None\<close>), an open socket sends, a socket closing or closed drops the
  message.
\<close>

definition ws_send :: "nat option \<Rightarrow> signal \<Rightarrow> event list option" where
  "ws_send sock msg =
     (case sock of
        None \<Rightarrow> None
      | Some readyState \<Rightarrow>
          if readyState = 0 then None else if readyState = 1 then Some [WsSend msg] else Some [])"

text \<open>
  The branches of \<^verbatim>\<open>handleSignaling\<close>, one definition each. An exception inside the
  \<^verbatim>\<open>try\<close> ends the branch with the line \<open>ErrorInSignaling\<close>; what was changed before
  stays changed.
\<close>

definition signalJoin :: "transport \<Rightarrow> string \<Rightarrow> VoiceChatApp \<Rightarrow> VoiceChatApp \<times> event list" where
  "signalJoin t g app =
     (case add g False (participantsManager app) (audio app) of
        (pm, au) \<Rightarrow>
          let app1 = app\<lparr>participantsManager := pm, audio := au\<rparr>
          in case getPeerConnection (webrtc app) g of
               Some existing \<Rightarrow> (app1, [Log (JoinedRoom g), UpdateUI])
             | None \<Rightarrow>
                 (case createPeerConnection (audioEffects app) g (webrtc app) of
                    (pc, w1, ev1) \<Rightarrow>
                      (case originateOffer t g pc of
                         (pc', ev2, sent) \<Rightarrow>
                           let app2 = app1\<lparr>webrtc := storeConnection g pc' w1\<rparr>
                           in case sent of
                                None \<Rightarrow> (app2, Log (JoinedRoom g) # ev1 @ ev2 @ [Log ErrorInSignaling])
                              | Some offer \<Rightarrow>
                                  (case ws_send (app_ws app) (Offer (app_currentGamertag app) g offer) of
                                     None \<Rightarrow>
                                       (app2, Log (JoinedRoom g) # ev1 @ ev2 @ [Log ErrorInSignaling])
                                   | Some sent_ev \<Rightarrow>
                                       (app2, Log (JoinedRoom g) # ev1 @ ev2 @ sent_ev @ [UpdateUI])))))"

definition signalLeave :: "transport \<Rightarrow> string \<Rightarrow> VoiceChatApp \<Rightarrow> VoiceChatApp \<times> event list" where
  "signalLeave t g app =
     (case remove g (participantsManager app) (audio app) of
        (pm, au) \<Rightarrow>
          (case closePeerConnection g (webrtc app) of
             (w1, ev1) \<Rightarrow>
               (case reconnectAllPeers t (audioEffects app) w1 of
                  (w2, ev2) \<Rightarrow>
                    (app\<lparr>participantsManager := pm, audio := au, webrtc := w2\<rparr>,
                     Log (LeftRoom g) # ev1 @ Log TriggeringReconnection # ev2 @ [UpdateUI]))))"

definition signalOffer ::
  "transport \<Rightarrow> string \<Rightarrow> sdp \<Rightarrow> VoiceChatApp \<Rightarrow> VoiceChatApp \<times> event list" where
  "signalOffer t from offer app =
     (case add from False (participantsManager app) (audio app) of
        (pm, au) \<Rightarrow>
          (case createPeerConnection (audioEffects app) from (webrtc app) of
             (pc, w1, ev1) \<Rightarrow>
               let app1 = app\<lparr>participantsManager := pm, audio := au, webrtc := w1\<rparr>;
                   ev = Log (ReceivedOffer from) # ev1
               in if signalingState pc = Stable \<or> signalingState pc = HaveLocalOffer
                  then
                    case setRemoteDescription t from pc offer of
                      None \<Rightarrow> (app1, ev @ [SetRemoteDescription from offer, Log ErrorInSignaling])
                    | Some s1 \<Rightarrow>
                        let pc1 = pc\<lparr>signalingState := s1\<rparr>;
                            app2 = app1\<lparr>webrtc := storeConnection from pc1 w1\<rparr>;
                            ev' = ev @ [SetRemoteDescription from offer, CreateAnswer from]
                        in (case createAnswer t from pc1 of
                              None \<Rightarrow> (app2, ev' @ [Log ErrorInSignaling])
                            | Some answer \<Rightarrow>
                                (case setLocalDescription t from pc1 answer of
                                   None \<Rightarrow>
                                     (app2, ev' @ [SetLocalDescription from answer, Log ErrorInSignaling])
                                 | Some s2 \<Rightarrow>
                                     let app3 = app1\<lparr>webrtc :=
                                                  storeConnection from (pc1\<lparr>signalingState := s2\<rparr>) w1\<rparr>
                                     in (case ws_send (app_ws app)
                                                (Answer (app_currentGamertag app) from answer) of
                                           None \<Rightarrow>
                                             (app3, ev' @ [SetLocalDescription from answer,
                                                           Log ErrorInSignaling])
                                         | Some sent_ev \<Rightarrow>
                                             (app3, ev' @ SetLocalDescription from answer # sent_ev
                                                      @ [Log (SentAnswer from), UpdateUI]))))
                  else (app1, ev @ [UpdateUI])))"

definition signalAnswer ::
  "transport \<Rightarrow> string \<Rightarrow> sdp \<Rightarrow> VoiceChatApp \<Rightarrow> VoiceChatApp \<times> event list" where
  "signalAnswer t from answer app =
     (case getPeerConnection (webrtc app) from of
        None \<Rightarrow> (app, [Log (ReceivedAnswer from)])
      | Some pc \<Rightarrow>
          if signalingState pc = HaveLocalOffer
          then
            case setRemoteDescription t from pc answer of
              None \<Rightarrow>
                (app, [Log (ReceivedAnswer from), SetRemoteDescription from answer, Log ErrorInSignaling])
            | Some s \<Rightarrow>
                (app\<lparr>webrtc := storeConnection from (pc\<lparr>signalingState := s\<rparr>) (webrtc app)\<rparr>,
                 [Log (ReceivedAnswer from), SetRemoteDescription from answer, Log (AnswerApplied from)])
          else (app, [Log (ReceivedAnswer from)]))"

definition signalIceCandidate ::
  "transport \<Rightarrow> string \<Rightarrow> candidate option \<Rightarrow> VoiceChatApp \<Rightarrow> VoiceChatApp \<times> event list" where
  "signalIceCandidate t from cand app =
     (case getPeerConnection (webrtc app) from of
        None \<Rightarrow> (app, [])
      | Some pc \<Rightarrow>
          (case cand of
             None \<Rightarrow> (app, [])
           | Some c \<Rightarrow>
               if addIceCandidate t from pc c then (app, [AddIceCandidate from c])
               else (app, [AddIceCandidate from c, Log ErrorInSignaling])))"

definition signalParticipantsList :: "string list \<Rightarrow> VoiceChatApp \<Rightarrow> VoiceChatApp \<times> event list" where
  "signalParticipantsList l app =
     (case fold (\<lambda>gt (pm, au). if gt \<noteq> app_currentGamertag app then add gt False pm au else (pm, au))
             l (participantsManager app, audio app) of
        (pm, au) \<Rightarrow>
          (app\<lparr>participantsManager := pm, audio := au\<rparr>, [Log (ReceivedParticipantsList l), UpdateUI]))"

text \<open>
  \<^verbatim>\<open>handleSignaling(data)\<close>: the chain of tests on \<^verbatim>\<open>data.type\<close>, \<^verbatim>\<open>data.gamertag\<close> and
  \<^verbatim>\<open>data.to\<close>; a message that passes none of them is dropped. The field \<^verbatim>\<open>to\<close> is read
  in the tests for an offer, an answer and a candidate, the three types that carry it.
\<close>

fun handleSignaling :: "transport \<Rightarrow> signal \<Rightarrow> VoiceChatApp \<Rightarrow> VoiceChatApp \<times> event list" where
  "handleSignaling t (Join g) app =
     (if g \<noteq> app_currentGamertag app then signalJoin t g app else (app, []))"
| "handleSignaling t (Leave g) app = signalLeave t g app"
| "handleSignaling t (Offer from to offer) app =
     (if to = app_currentGamertag app then signalOffer t from offer app else (app, []))"
| "handleSignaling t (Answer from to answer) app =
     (if to = app_currentGamertag app then signalAnswer t from answer app else (app, []))"
| "handleSignaling t (IceCandidate from to cand) app =
     (if to = app_currentGamertag app then signalIceCandidate t from cand app else (app, []))"
| "handleSignaling t (ParticipantsList l) app = signalParticipantsList l app"
| "handleSignaling t RequestParticipants app = (app, [])"
| "handleSignaling t (Heartbeat g) app = (app, [])"
| "handleSignaling t (PttStatus g talking muted) app = (app, [])"
| "handleSignaling t MinecraftUpdate app = (app, [])"

subsection \<open>Example data\<close>

definition ex_host :: audio_host where
  "ex_host = \<lparr>gain_value = (\<lambda>_. 1), element_volume = (\<lambda>_. 0), sources_disconnected = {},
     gains_disconnected = {}, elements_removed = {}\<rparr>"

definition ex_nodes :: nodeData where
  "ex_nodes = \<lparr>nd_gainNode = None, nd_audioElement = Some 7, nd_source = None\<rparr>"

definition ex_data :: playerData where
  "ex_data = \<lparr>isMuted = False, isDeafened = False, micVolume = None, isUnderWater = False,
     isInCave = False, isInMountain = False, isBuried = False, customVolumes = []\<rparr>"

definition ex_me :: player where
  "ex_me = \<lparr>name = ''Alex'', location = \<lparr>loc_x = 0, loc_y = 0, loc_z = 0\<rparr>, data = ex_data\<rparr>"

definition ex_steve :: player where
  "ex_steve = \<lparr>name = '' steve'', location = \<lparr>loc_x = 3, loc_y = 4, loc_z = 0\<rparr>, data = ex_data\<rparr>"

definition ex_mc :: MinecraftIntegration where
  "ex_mc = \<lparr>distanceCalculator = \<lparr>maxDistance = 20\<rparr>, remoteMuted = False, remoteDeafened = False\<rparr>"

definition ex_pm :: ParticipantsManager where
  "ex_pm = \<lparr>participants =
       [(''Alex'', new_Participant ''Alex'' True),
        (''Steve'', setCustomVolume (1 / 2) (new_Participant ''Steve'' False))],
     pendingNodes = []\<rparr>"

definition ex_pending :: ParticipantsManager where
  "ex_pending = addPendingNode ''Steve'' ex_nodes new_ParticipantsManager"

definition ex_both :: ParticipantsManager where
  "ex_both = addPendingNode ''Steve'' ex_nodes ex_pm"

text \<open>
  A negotiation primitive that never throws on a call made in a state that allows it, and
  moves the signaling state as an offer or an answer does.
\<close>

definition ex_transport :: transport where
  "ex_transport =
     \<lparr>createOffer = (\<lambda>g pc. if signalingState pc = SignalingClosed then None else Some (SdpOffer 1)),
      createAnswer = (\<lambda>g pc. if signalingState pc = HaveRemoteOffer then Some (SdpAnswer 2) else None),
      setLocalDescription =
        (\<lambda>g pc d. case d of
            SdpOffer n \<Rightarrow>
              if signalingState pc = Stable \<or> signalingState pc = HaveLocalOffer
              then Some HaveLocalOffer else None
          | SdpAnswer n \<Rightarrow> if signalingState pc = HaveRemoteOffer then Some Stable else None),
      setRemoteDescription =
        (\<lambda>g pc d. case d of
            SdpOffer n \<Rightarrow>
              if signalingState pc = Stable \<or> signalingState pc = HaveLocalOffer
                 \<or> signalingState pc = HaveRemoteOffer
              then Some HaveRemoteOffer else None
          | SdpAnswer n \<Rightarrow> if signalingState pc = HaveLocalOffer then Some Stable else None),
      addIceCandidate = (\<lambda>g pc c. True),
      replaceTrack = (\<lambda>g pc tr. True)\<rparr>"

definition ex_effects :: AudioEffectsManager where
  "ex_effects = new_AudioEffectsManager\<lparr>inputNode := Some 0, processedStream := Some 5,
     lastEffectChange := 1000\<rparr>"

definition ex_manager :: WebRTCManager where
  "ex_manager = \<lparr>peerConnections = [], ws = Some 1, currentGamertag = ''Alex''\<rparr>"

definition ex_linked :: WebRTCManager where
  "ex_linked = fst (snd (createPeerConnection ex_effects ''Steve'' ex_manager))"

definition ex_fail :: "WebRTCManager \<Rightarrow> WebRTCManager" where
  "ex_fail w = fst (onconnectionstatechange ex_transport ex_effects ''Steve'' Failed w)"

definition ex_pc :: "nat \<Rightarrow> signaling_state \<Rightarrow> RTCPeerConnection" where
  "ex_pc n s = \<lparr>isInitialConnection = True, reconnectAttempts = n, signalingState = s,
     connectionState = ConnNew, senders = [Some 5]\<rparr>"

definition ex_app :: VoiceChatApp where
  "ex_app = \<lparr>participantsManager = ex_pm,
     webrtc = storeConnection ''Steve'' (ex_pc 0 HaveRemoteOffer) ex_manager,
     audioEffects = ex_effects, audio = ex_host, app_ws = Some 1, app_currentGamertag = ''Alex''\<rparr>"

definition ex_established :: "signaling_state \<Rightarrow> WebRTCManager" where
  "ex_established s =
     storeConnection ''Steve''
       ((ex_pc 0 s)\<lparr>isInitialConnection := False, connectionState := Connected\<rparr>) ex_manager"

section \<open>Properties\<close>

subsection \<open>DistanceCalculator\<close>




text \<open>
  The exact formula never increases with the distance over \<open>d \<ge> 0\<close> and decreases
  strictly on \<open>0 \<le> d < M\<close>.
\<close>

lemma volumeFromDistance_exact_monotone:
  assumes "0 < M"
  shows "(0 \<le> d1 \<and> d1 \<le> d2 \<longrightarrow>
            volumeFromDistance \<lparr>maxDistance = M\<rparr> d2 \<le> volumeFromDistance \<lparr>maxDistance = M\<rparr> d1)
       \<and> (0 \<le> d1 \<and> d1 < d2 \<and> d2 < M \<longrightarrow>
            volumeFromDistance \<lparr>maxDistance = M\<rparr> d2 < volumeFromDistance \<lparr>maxDistance = M\<rparr> d1)"
proof (intro conjI impI)
  assume h: "0 \<le> d1 \<and> d1 \<le> d2"
  show "volumeFromDistance \<lparr>maxDistance = M\<rparr> d2 \<le> volumeFromDistance \<lparr>maxDistance = M\<rparr> d1"
  proof (cases "d2 > M")
    case True
    then show ?thesis by (simp add: volumeFromDistance_def)
  next
    case False
    with h have le: "d1 \<le> M" "d2 \<le> M" by simp_all
    from assms h have "d1 / M \<le> d2 / M"
      by (simp add: divide_right_mono)
    moreover from assms le have "d2 / M \<le> 1" by simp
    ultimately have "0 \<le> 1 - d2 / M" "1 - d2 / M \<le> 1 - d1 / M" by simp_all
    then have "(1 - d2 / M) ^ 2 \<le> (1 - d1 / M) ^ 2"
      by (rule power_mono [rotated])
    with le show ?thesis by (simp add: volumeFromDistance_def)
  qed
next
  assume h: "0 \<le> d1 \<and> d1 < d2 \<and> d2 < M"
  from assms h have "d1 / M < d2 / M"
    by (simp add: divide_strict_right_mono)
  moreover from assms h have "d2 / M < 1" by simp
  ultimately have "0 \<le> 1 - d2 / M" "1 - d2 / M < 1 - d1 / M" by simp_all
  then have "(1 - d2 / M) ^ 2 < (1 - d1 / M) ^ 2"
    by (simp add: power_strict_mono)
  with h show "volumeFromDistance \<lparr>maxDistance = M\<rparr> d2 < volumeFromDistance \<lparr>maxDistance = M\<rparr> d1"
    by (simp add: volumeFromDistance_def)
qed

subsection \<open>DistanceCalculator in double arithmetic\<close>

lemma roundTiesToEven_bounds:
  "\<lfloor>x\<rfloor> \<le> roundTiesToEven x" "roundTiesToEven x \<le> \<lfloor>x\<rfloor> + 1"
  by (simp_all add: roundTiesToEven_def Let_def)

lemma roundTiesToEven_of_int [simp]: "roundTiesToEven (of_int n) = n"
  by (simp add: roundTiesToEven_def)

lemma roundTiesToEven_mono:
  assumes "x \<le> y"
  shows "roundTiesToEven x \<le> roundTiesToEven y"
proof (cases "\<lfloor>x\<rfloor> = \<lfloor>y\<rfloor>")
  case True
  with assms have "x - of_int \<lfloor>x\<rfloor> \<le> y - of_int \<lfloor>y\<rfloor>" by simp
  with True show ?thesis
    by (auto simp add: roundTiesToEven_def Let_def)
next
  case False
  with assms have "\<lfloor>x\<rfloor> < \<lfloor>y\<rfloor>"
    using floor_mono [of x y] by linarith
  then have "\<lfloor>x\<rfloor> + 1 \<le> \<lfloor>y\<rfloor>" by simp
  with roundTiesToEven_bounds(2) [of x] roundTiesToEven_bounds(1) [of y]
  show ?thesis by linarith
qed

lemma exponent_bounds:
  assumes "0 < x"
  shows "2 powi (exponent x) \<le> x" and "x < 2 powi (exponent x + 1)"
proof -
  show "2 powi (exponent x) \<le> x"
  proof (cases "1 \<le> x")
    case True
    then have n: "0 < \<lfloor>x\<rfloor>" by simp
    from bitlen_bounds [OF n] have "2 ^ nat (bitlen \<lfloor>x\<rfloor> - 1) \<le> \<lfloor>x\<rfloor>" by simp
    then have "real_of_int (2 ^ nat (bitlen \<lfloor>x\<rfloor> - 1)) \<le> of_int \<lfloor>x\<rfloor>"
      by (simp only: of_int_le_iff)
    then have "(2::real) ^ nat (bitlen \<lfloor>x\<rfloor> - 1) \<le> of_int \<lfloor>x\<rfloor>"
      by simp
    also have "\<dots> \<le> x" by simp
    finally have "(2::real) ^ nat (bitlen \<lfloor>x\<rfloor> - 1) \<le> x" .
    moreover from n have "0 \<le> bitlen \<lfloor>x\<rfloor> - 1" by (simp add: bitlen_alt_def)
    ultimately show ?thesis using True by (simp add: exponent_def power_int_def)
  next
    case False
    with assms have y: "1 < 1 / x" by simp
    let ?k = "\<lceil>1 / x\<rceil> - 1"
    from y have k: "0 < ?k" by linarith
    have "1 / x \<le> of_int ?k + 1" by simp
    also have "real_of_int ?k + 1 \<le> 2 ^ nat (bitlen ?k)"
    proof -
      have "?k + 1 \<le> 2 ^ nat (bitlen ?k)"
        using bitlen_bounds [OF k] by simp
      then have "real_of_int (?k + 1) \<le> real_of_int (2 ^ nat (bitlen ?k))"
        by (simp only: of_int_le_iff)
      then show ?thesis by simp
    qed
    finally have "1 / x \<le> 2 ^ nat (bitlen ?k)" .
    then have "1 / 2 ^ nat (bitlen ?k) \<le> x"
      using assms by (simp add: field_simps)
    moreover from k have "1 \<le> bitlen ?k" by (simp add: bitlen_alt_def)
    ultimately show ?thesis using False
      by (simp add: exponent_def power_int_def power_one_over)
  qed
  show "x < 2 powi (exponent x + 1)"
  proof (cases "1 \<le> x")
    case True
    then have n: "0 < \<lfloor>x\<rfloor>" by simp
    from bitlen_bounds [OF n] have "\<lfloor>x\<rfloor> + 1 \<le> 2 ^ nat (bitlen \<lfloor>x\<rfloor>)" by simp
    then have "real_of_int (\<lfloor>x\<rfloor> + 1) \<le> real_of_int (2 ^ nat (bitlen \<lfloor>x\<rfloor>))"
      by (simp only: of_int_le_iff)
    then have "real_of_int \<lfloor>x\<rfloor> + 1 \<le> 2 ^ nat (bitlen \<lfloor>x\<rfloor>)"
      by simp
    moreover have "x < of_int \<lfloor>x\<rfloor> + 1" by simp
    ultimately have "x < 2 ^ nat (bitlen \<lfloor>x\<rfloor>)" by linarith
    moreover have "0 \<le> bitlen \<lfloor>x\<rfloor>" by (rule bitlen_nonneg)
    ultimately show ?thesis using True by (simp add: exponent_def power_int_def)
  next
    case False
    with assms have y: "1 < 1 / x" by simp
    let ?k = "\<lceil>1 / x\<rceil> - 1"
    from y have k: "0 < ?k" by linarith
    from k have b: "1 \<le> bitlen ?k" by (simp add: bitlen_alt_def)
    have "(2::real) ^ nat (bitlen ?k - 1) \<le> of_int ?k"
    proof -
      have "2 ^ nat (bitlen ?k - 1) \<le> ?k"
        using bitlen_bounds [OF k] by simp
      then have "real_of_int (2 ^ nat (bitlen ?k - 1)) \<le> real_of_int ?k"
        by (simp only: of_int_le_iff)
      then show ?thesis by simp
    qed
    also have "real_of_int ?k < 1 / x" by linarith
    finally have "2 ^ nat (bitlen ?k - 1) < 1 / x" .
    then have "x < 1 / 2 ^ nat (bitlen ?k - 1)"
      using assms by (simp add: field_simps)
    moreover have "2 powi (- bitlen ?k + 1) = 1 / (2::real) ^ nat (bitlen ?k - 1)"
    proof -
      have "- bitlen ?k + 1 = - (bitlen ?k - 1)" by simp
      then have "(2::real) powi (- bitlen ?k + 1) = 1 / 2 powi (bitlen ?k - 1)"
        by (simp only: power_int_minus_divide)
      with b show ?thesis by (simp add: power_int_def)
    qed
    ultimately show ?thesis using False by (simp add: exponent_def)
  qed
qed

lemma exponent_mono:
  assumes "0 < x" and "x \<le> y"
  shows "exponent x \<le> exponent y"
proof (rule ccontr)
  assume "\<not> exponent x \<le> exponent y"
  then have "exponent y + 1 \<le> exponent x" by simp
  then have "(2::real) powi (exponent y + 1) \<le> 2 powi (exponent x)"
    by (intro power_int_increasing) simp_all
  also have "\<dots> \<le> x" using assms(1) by (rule exponent_bounds)
  finally have "2 powi (exponent y + 1) \<le> y" using assms(2) by simp
  moreover have "y < 2 powi (exponent y + 1)"
    using assms by (intro exponent_bounds) simp
  ultimately show False by simp
qed

lemma double_round_pos:
  assumes "0 < x"
  shows "double_round x =
     of_int (roundTiesToEven (x / 2 powi (max (exponent x - 52) (- 1074))))
       * 2 powi (max (exponent x - 52) (- 1074))"
  using assms by (simp add: double_round_def Let_def)

lemma double_round_nonneg:
  assumes "0 \<le> x"
  shows "0 \<le> double_round x"
proof (cases "x = 0")
  case True
  then show ?thesis by (simp add: double_round_def)
next
  case False
  with assms have p: "0 < x" by simp
  let ?e = "max (exponent x - 52) (- 1074)"
  from p have "0 \<le> x / 2 powi ?e" by simp
  then have "roundTiesToEven 0 \<le> roundTiesToEven (x / 2 powi ?e)"
    by (rule roundTiesToEven_mono)
  then have "0 \<le> roundTiesToEven (x / 2 powi ?e)"
    using roundTiesToEven_of_int [of 0] by simp
  then show ?thesis using p by (simp add: double_round_pos)
qed

lemma double_round_mono_pos:
  assumes "0 < x" and "x \<le> y"
  shows "double_round x \<le> double_round y"
proof -
  let ?ex = "max (exponent x - 52) (- 1074)"
  let ?ey = "max (exponent y - 52) (- 1074)"
  from assms have py: "0 < y" by simp
  from exponent_mono [OF assms] have le: "?ex \<le> ?ey" by simp
  show ?thesis
  proof (cases "?ex = ?ey")
    case True
    from assms(2) have "x / 2 powi ?ey \<le> y / 2 powi ?ey"
      by (simp add: divide_right_mono)
    then have "roundTiesToEven (x / 2 powi ?ey) \<le> roundTiesToEven (y / 2 powi ?ey)"
      by (rule roundTiesToEven_mono)
    then have "real_of_int (roundTiesToEven (x / 2 powi ?ey)) * 2 powi ?ey
        \<le> real_of_int (roundTiesToEven (y / 2 powi ?ey)) * 2 powi ?ey"
      by (simp add: mult_right_mono)
    with True show ?thesis
      by (simp only: double_round_pos [OF assms(1)] double_round_pos [OF py])
  next
    case False
    with le have lt: "?ex + 1 \<le> ?ey" by simp
    then have ey: "?ey = exponent y - 52" by simp
    have px: "(0::real) < 2 powi ?ex" and pyy: "(0::real) < 2 powi ?ey" by simp_all
    have "x < 2 powi (exponent x + 1)" using assms(1) by (rule exponent_bounds)
    also have "(2::real) powi (exponent x + 1) \<le> 2 powi (?ex + 53)"
      by (intro power_int_increasing) simp_all
    finally have "x < 2 powi (?ex + 53)" .
    also have "(2::real) powi (?ex + 53) = 2 powi ?ex * 2 ^ 53"
      by (simp add: power_int_add)
    finally have "x / 2 powi ?ex \<le> 2 ^ 53"
      using px by (simp add: field_simps)
    then have "roundTiesToEven (x / 2 powi ?ex) \<le> roundTiesToEven (of_int (2 ^ 53))"
      by (intro roundTiesToEven_mono) simp
    then have "roundTiesToEven (x / 2 powi ?ex) \<le> 2 ^ 53"
      by (simp only: roundTiesToEven_of_int)
    then have "real_of_int (roundTiesToEven (x / 2 powi ?ex)) \<le> real_of_int (2 ^ 53)"
      by (simp only: of_int_le_iff)
    then have "real_of_int (roundTiesToEven (x / 2 powi ?ex)) \<le> 2 ^ 53"
      by simp
    then have "real_of_int (roundTiesToEven (x / 2 powi ?ex)) * 2 powi ?ex \<le> 2 ^ 53 * 2 powi ?ex"
      using px by (simp add: mult_right_mono)
    then have ux: "double_round x \<le> 2 powi (?ex + 53)"
      by (simp add: double_round_pos [OF assms(1)] power_int_add)
    have "(2::real) powi (exponent y) \<le> y" using py by (rule exponent_bounds)
    moreover have "(2::real) powi (exponent y) = 2 powi ?ey * 2 ^ 52"
    proof -
      have "(2::real) powi ((exponent y - 52) + 52) = 2 powi (exponent y - 52) * 2 powi 52"
        by (rule power_int_add) simp
      then show ?thesis by (simp add: ey)
    qed
    ultimately have "2 ^ 52 \<le> y / 2 powi ?ey"
      using pyy by (simp add: field_simps)
    then have "roundTiesToEven (of_int (2 ^ 52)) \<le> roundTiesToEven (y / 2 powi ?ey)"
      by (intro roundTiesToEven_mono) simp
    then have "2 ^ 52 \<le> roundTiesToEven (y / 2 powi ?ey)"
      by (simp only: roundTiesToEven_of_int)
    then have "real_of_int (2 ^ 52) \<le> real_of_int (roundTiesToEven (y / 2 powi ?ey))"
      by (simp only: of_int_le_iff)
    then have "2 ^ 52 \<le> real_of_int (roundTiesToEven (y / 2 powi ?ey))"
      by simp
    then have "2 ^ 52 * 2 powi ?ey \<le> real_of_int (roundTiesToEven (y / 2 powi ?ey)) * 2 powi ?ey"
      using pyy by (simp add: mult_right_mono)
    then have ly: "2 powi (?ey + 52) \<le> double_round y"
      by (simp add: double_round_pos [OF py] power_int_add)
    have "(2::real) powi (?ex + 53) \<le> 2 powi (?ey + 52)"
      using lt by (intro power_int_increasing) simp_all
    with ux ly show ?thesis by linarith
  qed
qed

lemma double_round_mono:
  assumes "0 \<le> x" and "x \<le> y"
  shows "double_round x \<le> double_round y"
proof (cases "x = 0")
  case True
  with assms have "0 \<le> y" by simp
  then have "0 \<le> double_round y" by (rule double_round_nonneg)
  with True show ?thesis by (simp add: double_round_def)
next
  case False
  with assms have "0 < x" by simp
  then show ?thesis using assms(2) by (rule double_round_mono_pos)
qed

lemma double_round_0 [simp]: "double_round 0 = 0"
  by (simp add: double_round_def)

lemma exponent_1: "exponent 1 = 0"
  by (simp add: exponent_def bitlen_alt_def)

lemma double_round_1 [simp]: "double_round 1 = 1"
proof -
  have "roundTiesToEven (of_int (2 ^ 52)) = 2 ^ 52" by (rule roundTiesToEven_of_int)
  then have "roundTiesToEven (2 ^ 52) = 2 ^ 52" by simp
  then show ?thesis
    by (simp add: double_round_def exponent_1 power_int_minus_divide)
qed

lemma double_square_mono: "0 \<le> x \<Longrightarrow> x \<le> y \<Longrightarrow> double_square x \<le> double_square y"
  unfolding double_square_def by (intro double_round_mono mult_mono) simp_all

lemma double_square_0 [simp]: "double_square 0 = 0"
  by (simp add: double_square_def)

lemma double_square_1 [simp]: "double_square 1 = 1"
  by (simp add: double_square_def)

lemma inner_nonneg:
  assumes "0 < M" "0 \<le> d" "d \<le> M"
  shows "0 \<le> double_round (1 - double_round (d / M))"
proof -
  from assms have "d / M \<le> 1" by simp
  moreover from assms have "0 \<le> d / M" by simp
  ultimately have "double_round (d / M) \<le> double_round 1" by (intro double_round_mono)
  then have "0 \<le> 1 - double_round (d / M)" by simp
  then show ?thesis by (rule double_round_nonneg)
qed

text \<open>
  C2, as the code has it. For every \<open>M > 0\<close> the volume the code computes never increases
  with the distance over \<open>d \<ge> 0\<close>, whatever \<^verbatim>\<open>Math.pow(x, 2)\<close> is, as long as it never
  decreases when \<open>x \<ge> 0\<close> grows and is 0 at 0.
\<close>

theorem volumeFromDistance_double_monotone:
  assumes "0 < M"
    and "\<forall>x y. 0 \<le> x \<and> x \<le> y \<longrightarrow> sq x \<le> sq y"
    and "sq 0 = 0"
  shows "0 \<le> d1 \<and> d1 \<le> d2 \<longrightarrow>
           volumeFromDistance_double sq \<lparr>maxDistance = M\<rparr> d2
             \<le> volumeFromDistance_double sq \<lparr>maxDistance = M\<rparr> d1"
proof
  assume h: "0 \<le> d1 \<and> d1 \<le> d2"
  show "volumeFromDistance_double sq \<lparr>maxDistance = M\<rparr> d2
          \<le> volumeFromDistance_double sq \<lparr>maxDistance = M\<rparr> d1"
  proof (cases "d1 > M")
    case True
    with h show ?thesis by (simp add: volumeFromDistance_double_def)
  next
    case False
    then have le1: "d1 \<le> M" by simp
    let ?s1 = "double_round (1 - double_round (d1 / M))"
    have n1: "0 \<le> ?s1" using assms(1) h le1 by (intro inner_nonneg) simp_all
    with assms(2) have "sq 0 \<le> sq ?s1" by blast
    with assms(3) have p1: "0 \<le> sq ?s1" by simp
    show ?thesis
    proof (cases "d2 > M")
      case True
      with le1 p1 show ?thesis by (simp add: volumeFromDistance_double_def)
    next
      case False
      then have le2: "d2 \<le> M" by simp
      let ?s2 = "double_round (1 - double_round (d2 / M))"
      from h assms(1) have "0 \<le> d1 / M" "d1 / M \<le> d2 / M"
        by (simp_all add: divide_right_mono)
      then have "double_round (d1 / M) \<le> double_round (d2 / M)" by (rule double_round_mono)
      then have "1 - double_round (d2 / M) \<le> 1 - double_round (d1 / M)" by simp
      moreover have "0 \<le> 1 - double_round (d2 / M)"
      proof -
        from h le2 assms(1) have "0 \<le> d2 / M" "d2 / M \<le> 1" by simp_all
        then have "double_round (d2 / M) \<le> double_round 1" by (rule double_round_mono)
        then show ?thesis by simp
      qed
      ultimately have "?s2 \<le> ?s1" by (intro double_round_mono)
      moreover have "0 \<le> ?s2" using assms(1) h le2 by (intro inner_nonneg) simp_all
      ultimately have "sq ?s2 \<le> sq ?s1" using assms(2) by blast
      with le1 le2 show ?thesis by (simp add: volumeFromDistance_double_def)
    qed
  qed
qed

theorem volumeFromDistance_double_monotone_witness:
  "(0::real) < 20 \<and> double_square 0 = 0 \<and> (0::real) \<le> 5 \<and> (5::real) \<le> 10
   \<and> volumeFromDistance_double double_square \<lparr>maxDistance = 20\<rparr> 10
       \<le> volumeFromDistance_double double_square \<lparr>maxDistance = 20\<rparr> 5
   \<and> volumeFromDistance_double double_square \<lparr>maxDistance = 20\<rparr> 10 = 1 / 4
   \<and> volumeFromDistance_double double_square \<lparr>maxDistance = 20\<rparr> 5 = 9 / 16"
proof -
  have m: "\<forall>x y. 0 \<le> x \<and> x \<le> y \<longrightarrow> double_square x \<le> double_square y"
    by (simp add: double_square_mono)
  have z: "double_square 0 = 0" by simp
  have "volumeFromDistance_double double_square \<lparr>maxDistance = 20\<rparr> 10
       \<le> volumeFromDistance_double double_square \<lparr>maxDistance = 20\<rparr> 5"
    using volumeFromDistance_double_monotone [of 20 double_square 5 10, OF _ m z] by simp
  moreover have "volumeFromDistance_double double_square \<lparr>maxDistance = 20\<rparr> 10 = 1 / 4"
    by code_simp
  moreover have "volumeFromDistance_double double_square \<lparr>maxDistance = 20\<rparr> 5 = 9 / 16"
    by code_simp
  ultimately show ?thesis by simp
qed

text \<open>
  For a distance small against \<open>maxDistance\<close> the difference \<open>1 - d / M\<close> rounds to 1, so
  the volume is that of distance 0, whatever \<^verbatim>\<open>Math.pow\<close> is. The second distance is the
  double written \<^verbatim>\<open>1e-17\<close>.
\<close>

lemma small_distance_rounds_to_1:
  "double_round (1 - double_round (1 / 2 ^ 60 / 20)) = 1"
  "double_round (1 - double_round (6490371073168535 / 2 ^ 109 / 20)) = 1"
  "double_round (1 - double_round (0 / 20)) = 1"
  by code_simp+

lemma volumeFromDistance_double_plateau:
  "volumeFromDistance_double sq \<lparr>maxDistance = 20\<rparr> (1 / 2 ^ 60) = sq 1"
  "volumeFromDistance_double sq \<lparr>maxDistance = 20\<rparr> (6490371073168535 / 2 ^ 109) = sq 1"
  "volumeFromDistance_double sq \<lparr>maxDistance = 20\<rparr> 0 = sq 1"
  by (simp_all only: volumeFromDistance_double_def small_distance_rounds_to_1
      DistanceCalculator.simps) simp_all

text \<open>
  C2, as the claim states it, fails in its strict half: with \<open>maxDistance\<close> 20 the
  distances 0 and \<open>1 / 2 ^ 60\<close> both lie in \<open>0 \<le> d < M\<close>, the second is larger, and the code
  returns 1 at both.
\<close>

theorem volumeFromDistance_strict_counterexample:
  "(0::real) \<le> 0 \<and> (0::real) < 1 / 2 ^ 60 \<and> (1 / 2 ^ 60 :: real) < 20
   \<and> volumeFromDistance_double double_square \<lparr>maxDistance = 20\<rparr> 0 = 1
   \<and> volumeFromDistance_double double_square \<lparr>maxDistance = 20\<rparr> (1 / 2 ^ 60) = 1
   \<and> volumeFromDistance_double double_square \<lparr>maxDistance = 20\<rparr> (6490371073168535 / 2 ^ 109) = 1
   \<and> \<not> volumeFromDistance_double double_square \<lparr>maxDistance = 20\<rparr> (1 / 2 ^ 60)
         < volumeFromDistance_double double_square \<lparr>maxDistance = 20\<rparr> 0"
  unfolding volumeFromDistance_double_plateau double_square_1 by simp

text \<open>
  The rounding is visible in the value: with \<open>maxDistance\<close> 3 and distance 1 the exact
  volume is 4/9, and the doubles give \<open>4003199668773775 / 2 ^ 53\<close>.
\<close>

lemma volumeFromDistance_double_rounded:
  "volumeFromDistance_double double_square \<lparr>maxDistance = 3\<rparr> 1 = 4003199668773775 / 2 ^ 53"
  by code_simp


subsection \<open>MinecraftIntegration: volumes of the participants\<close>

lemma updateVolume_fields:
  "volume (fst (updateVolume v p host)) = v * customVolume p"
  "distance (fst (updateVolume v p host)) = distance p"
  "customVolume (fst (updateVolume v p host)) = customVolume p"
  "isSelf (fst (updateVolume v p host)) = isSelf p"
  by (simp_all add: updateVolume_def Let_def split: option.splits)

text \<open>
  The participant stored under a key after the loop is the callback's result on the
  participant stored there before, for some state of the audio objects.
\<close>

lemma forEach_lookup:
  "map_of ps g = Some p \<Longrightarrow> \<exists>h. map_of (fst (forEach f ps host)) g = Some (fst (f p g h))"
proof (induction ps arbitrary: host)
  case Nil
  then show ?case by simp
next
  case (Cons e ps)
  obtain g0 p0 where e: "e = (g0, p0)" by (cases e)
  obtain p0' h0 where f0: "f p0 g0 host = (p0', h0)" by (cases "f p0 g0 host")
  obtain rest h1 where r: "forEach f ps h0 = (rest, h1)" by (cases "forEach f ps h0")
  show ?case
  proof (cases "g0 = g")
    case True
    with Cons.prems e have "p0 = p" by simp
    with True e f0 r have "map_of (fst (forEach f (e # ps) host)) g = Some (fst (f p g host))"
      by simp
    then show ?thesis by blast
  next
    case False
    with Cons.prems e have "map_of ps g = Some p" by simp
    from Cons.IH [OF this, of h0] obtain h where "map_of (fst (forEach f ps h0)) g = Some (fst (f p g h))"
      by blast
    with False e f0 r have "map_of (fst (forEach f (e # ps) host)) g = Some (fst (f p g h))"
      by simp
    then show ?thesis by blast
  qed
qed

lemma ex_calculate: "calculate (location ex_me) (location ex_steve) = 5"
proof -
  have "sqrt 25 = sqrt (5 ^ 2)" by simp
  also have "\<dots> = 5" by (simp only: real_sqrt_abs)
  finally show ?thesis by (simp add: calculate_def ex_me_def ex_steve_def)
qed

lemma ex_flags: "\<not> isMuted (data ex_steve)" "\<not> remoteDeafened ex_mc"
  "distanceCalculator ex_mc = \<lparr>maxDistance = 20\<rparr>"
  by (simp_all add: ex_steve_def ex_data_def ex_mc_def)

lemma ex_volume: "volumeFromDistance \<lparr>maxDistance = 20\<rparr> 5 = 9 / 16"
  by (simp add: volumeFromDistance_def power2_eq_square)

lemma ex_find: "findPlayer normName ''Steve'' [ex_me, ex_steve] = Some ex_steve"
  by (simp add: findPlayer_def normName_def toLowerCase_def trim_def ex_me_def ex_steve_def)

lemma ex_run:
  "get (fst (updateParticipantVolumes normName ex_mc ex_me [ex_me, ex_steve] ex_pm ex_host)) ''Steve''
   = Some ((setCustomVolume (1 / 2) (new_Participant ''Steve'' False))\<lparr>distance := 5, volume := 9 / 32\<rparr>)"
proof -
  have "updateParticipantVolume normName ex_mc ex_me [ex_me, ex_steve]
          (setCustomVolume (1 / 2) (new_Participant ''Steve'' False)) ''Steve'' h
        = ((setCustomVolume (1 / 2) (new_Participant ''Steve'' False))\<lparr>distance := 5, volume := 9 / 32\<rparr>, h)" for h
    by (simp add: updateParticipantVolume_def ex_find ex_calculate ex_flags ex_volume updateVolume_def
        updateDistance_def setCustomVolume_def new_Participant_def Let_def)
  moreover have "updateParticipantVolume normName ex_mc ex_me [ex_me, ex_steve]
          (new_Participant ''Alex'' True) ''Alex'' h = (new_Participant ''Alex'' True, h)" for h
    by (simp add: updateParticipantVolume_def new_Participant_def)
  ultimately show ?thesis
    by (simp add: updateParticipantVolumes_def ex_pm_def get_def)
qed

text \<open>
  C3, as the code has it. For a participant that is not the listener and whose name is
  found in the snapshot: when the player found is muted, volume and distance become 0;
  otherwise, when the listener is deafened, the volume becomes 0 and the distance stays;
  otherwise the distance becomes the distance of the two players, and the volume becomes
  the volume of that distance under the current \<open>maxDistance\<close>, multiplied by the
  participant's custom volume (\<open>updateVolume\<close> stores the product).
\<close>

theorem updateParticipantVolumes_precedence:
  assumes "map_of (participants pm) g = Some p"
    and "\<not> isSelf p"
    and "findPlayer nrm g playersList = Some other"
  shows "\<exists>p'. get (fst (updateParticipantVolumes nrm mc myPlayer playersList pm host)) g = Some p'
     \<and> customVolume p' = customVolume p
     \<and> (if isMuted (data other) then volume p' = 0 \<and> distance p' = 0
        else if remoteDeafened mc then volume p' = 0 \<and> distance p' = distance p
        else distance p' = calculate (location myPlayer) (location other)
           \<and> volume p' =
               volumeFromDistance (distanceCalculator mc)
                 (calculate (location myPlayer) (location other)) * customVolume p)"
proof -
  let ?f = "updateParticipantVolume nrm mc myPlayer playersList"
  from forEach_lookup [OF assms(1), of ?f host]
  obtain h where h: "map_of (fst (forEach ?f (participants pm) host)) g = Some (fst (?f p g h))"
    by blast
  have g: "get (fst (updateParticipantVolumes nrm mc myPlayer playersList pm host)) g = Some (fst (?f p g h))"
    using h by (cases "forEach ?f (participants pm) host") (simp add: get_def updateParticipantVolumes_def)
  have "customVolume (fst (?f p g h)) = customVolume p
     \<and> (if isMuted (data other) then volume (fst (?f p g h)) = 0 \<and> distance (fst (?f p g h)) = 0
        else if remoteDeafened mc then volume (fst (?f p g h)) = 0 \<and> distance (fst (?f p g h)) = distance p
        else distance (fst (?f p g h)) = calculate (location myPlayer) (location other)
           \<and> volume (fst (?f p g h)) =
               volumeFromDistance (distanceCalculator mc)
                 (calculate (location myPlayer) (location other)) * customVolume p)"
    using assms(2,3)
    by (simp add: updateParticipantVolume_def updateVolume_fields updateDistance_def Let_def)
  with g show ?thesis by blast
qed

theorem updateParticipantVolumes_precedence_witness:
  "map_of (participants ex_pm) ''Steve'' = Some (setCustomVolume (1 / 2) (new_Participant ''Steve'' False))
   \<and> \<not> isSelf (setCustomVolume (1 / 2) (new_Participant ''Steve'' False))
   \<and> findPlayer normName ''Steve'' [ex_me, ex_steve] = Some ex_steve
   \<and> distance (the (get (fst (updateParticipantVolumes normName ex_mc ex_me [ex_me, ex_steve] ex_pm ex_host)) ''Steve'')) = 5
   \<and> volume (the (get (fst (updateParticipantVolumes normName ex_mc ex_me [ex_me, ex_steve] ex_pm ex_host)) ''Steve''))
       = 9 / 16 * (1 / 2)"
proof -
  have a: "map_of (participants ex_pm) ''Steve'' = Some (setCustomVolume (1 / 2) (new_Participant ''Steve'' False))"
    by (simp add: ex_pm_def)
  have b: "\<not> isSelf (setCustomVolume (1 / 2) (new_Participant ''Steve'' False))"
    by (simp add: setCustomVolume_def new_Participant_def)
  from updateParticipantVolumes_precedence [OF a b ex_find, of ex_mc ex_me ex_host]
  obtain p' where
    "get (fst (updateParticipantVolumes normName ex_mc ex_me [ex_me, ex_steve] ex_pm ex_host)) ''Steve'' = Some p'"
    "distance p' = 5"
    "volume p' = 9 / 16 * (1 / 2)"
    by (auto simp add: ex_calculate ex_flags ex_volume setCustomVolume_def new_Participant_def)
  with a b ex_find show ?thesis by simp
qed

text \<open>
  C3, as the claim states it, fails where the custom volume is not 1. Steve is not the
  listener, is found in the snapshot 5 blocks away, is not muted, and the listener is not
  deafened; the volume of that distance is 9/16, and the volume stored is 9/32.
\<close>

theorem updateParticipantVolumes_volume_counterexample:
  "get ex_pm ''Steve'' = Some (setCustomVolume (1 / 2) (new_Participant ''Steve'' False))
   \<and> \<not> isSelf (setCustomVolume (1 / 2) (new_Participant ''Steve'' False))
   \<and> findPlayer normName ''Steve'' [ex_me, ex_steve] = Some ex_steve
   \<and> \<not> isMuted (data ex_steve) \<and> \<not> remoteDeafened ex_mc
   \<and> volumeFromDistance (distanceCalculator ex_mc) (calculate (location ex_me) (location ex_steve)) = 9 / 16
   \<and> volume (the (get (fst (updateParticipantVolumes normName ex_mc ex_me [ex_me, ex_steve] ex_pm ex_host)) ''Steve''))
       = 9 / 32
   \<and> volume (the (get (fst (updateParticipantVolumes normName ex_mc ex_me [ex_me, ex_steve] ex_pm ex_host)) ''Steve''))
       \<noteq> volumeFromDistance (distanceCalculator ex_mc) (calculate (location ex_me) (location ex_steve))"
proof (intro conjI)
  show "get ex_pm ''Steve'' = Some (setCustomVolume (1 / 2) (new_Participant ''Steve'' False))"
    by (simp add: ex_pm_def get_def)
  show "\<not> isSelf (setCustomVolume (1 / 2) (new_Participant ''Steve'' False))"
    by (simp add: setCustomVolume_def new_Participant_def)
  show "findPlayer normName ''Steve'' [ex_me, ex_steve] = Some ex_steve"
    by (rule ex_find)
  show "\<not> isMuted (data ex_steve)" "\<not> remoteDeafened ex_mc"
    by (simp_all add: ex_flags)
  show "volumeFromDistance (distanceCalculator ex_mc) (calculate (location ex_me) (location ex_steve)) = 9 / 16"
    by (simp add: ex_calculate ex_flags ex_volume)
  show "volume (the (get (fst (updateParticipantVolumes normName ex_mc ex_me [ex_me, ex_steve] ex_pm ex_host)) ''Steve''))
       = 9 / 32"
    by (simp add: ex_run)
  show "volume (the (get (fst (updateParticipantVolumes normName ex_mc ex_me [ex_me, ex_steve] ex_pm ex_host)) ''Steve''))
       \<noteq> volumeFromDistance (distanceCalculator ex_mc) (calculate (location ex_me) (location ex_steve))"
    by (simp add: ex_run ex_calculate ex_flags ex_volume)
qed

subsection \<open>ParticipantsManager: pending audio nodes\<close>

lemma add_absent_pending:
  assumes "\<not> has pm g" and "map_of (pendingNodes pm) g = Some nd"
  shows "get (fst (add g self pm host)) g =
           Some (setAudioNodes (nd_gainNode nd) (nd_audioElement nd) (nd_source nd) (new_Participant g self))"
    and "map_of (pendingNodes (fst (add g self pm host))) g = None"
  using assms by (simp_all add: add_def get_def Let_def update_conv' delete_conv')

lemma has_remove: "\<not> has (fst (remove g pm host)) g"
  by (simp add: remove_def has_def delete_conv' split: option.splits)

lemma pendingNodes_remove: "pendingNodes (fst (remove g pm host)) = pendingNodes pm"
  by (simp add: remove_def split: option.splits)

lemma ex_pending_facts:
  "\<not> has ex_pending ''Steve''" "map_of (pendingNodes ex_pending) ''Steve'' = Some ex_nodes"
  by (simp_all add: ex_pending_def addPendingNode_def new_ParticipantsManager_def has_def)

text \<open>
  C4. When nodes are pending for a gamertag that has no participant (as
  \<open>addPendingNode\<close> leaves them), \<open>add\<close> creates a participant that holds exactly these
  nodes, and the pending entry is gone; \<open>add\<close> on a gamertag that is present changes
  nothing.
\<close>

theorem add_consumes_pending:
  "(\<not> has pm g \<and> map_of (pendingNodes pm) g = Some nd \<longrightarrow>
      (\<exists>p. get (fst (add g self pm host)) g = Some p
          \<and> gainNode p = nd_gainNode nd \<and> audioElement p = nd_audioElement nd
          \<and> source p = nd_source nd)
      \<and> map_of (pendingNodes (fst (add g self pm host))) g = None)
   \<and> map_of (pendingNodes (addPendingNode g nd pm)) g = Some nd
   \<and> participants (addPendingNode g nd pm) = participants pm
   \<and> (has pm g \<longrightarrow> add g self pm host = (pm, host))"
proof (intro conjI impI)
  assume h: "\<not> has pm g \<and> map_of (pendingNodes pm) g = Some nd"
  then have "get (fst (add g self pm host)) g =
           Some (setAudioNodes (nd_gainNode nd) (nd_audioElement nd) (nd_source nd) (new_Participant g self))"
    by (simp add: add_absent_pending)
  then show "\<exists>p. get (fst (add g self pm host)) g = Some p
          \<and> gainNode p = nd_gainNode nd \<and> audioElement p = nd_audioElement nd
          \<and> source p = nd_source nd"
    by (simp add: setAudioNodes_def)
  from h show "map_of (pendingNodes (fst (add g self pm host))) g = None"
    by (simp add: add_absent_pending)
next
  show "map_of (pendingNodes (addPendingNode g nd pm)) g = Some nd"
    by (simp add: addPendingNode_def update_conv')
  show "participants (addPendingNode g nd pm) = participants pm"
    by (simp add: addPendingNode_def)
next
  assume "has pm g"
  then show "add g self pm host = (pm, host)" by (simp add: add_def)
qed

theorem add_consumes_pending_witness:
  "\<not> has ex_pending ''Steve'' \<and> map_of (pendingNodes ex_pending) ''Steve'' = Some ex_nodes
   \<and> audioElement (the (get (fst (add ''Steve'' False ex_pending ex_host)) ''Steve'')) = Some 7
   \<and> map_of (pendingNodes (fst (add ''Steve'' False ex_pending ex_host))) ''Steve'' = None
   \<and> has ex_pm ''Steve'' \<and> add ''Steve'' False ex_pm ex_host = (ex_pm, ex_host)"
proof -
  have c: "has ex_pm ''Steve''" by (simp add: ex_pm_def has_def)
  from add_consumes_pending [where pm = ex_pending and g = "''Steve''" and nd = ex_nodes
      and self = False and host = ex_host] ex_pending_facts
  obtain p where "get (fst (add ''Steve'' False ex_pending ex_host)) ''Steve'' = Some p"
    "audioElement p = Some 7"
    "map_of (pendingNodes (fst (add ''Steve'' False ex_pending ex_host))) ''Steve'' = None"
    by (auto simp add: ex_nodes_def)
  moreover from add_consumes_pending [where pm = ex_pm and g = "''Steve''" and self = False
      and host = ex_host] c
  have "add ''Steve'' False ex_pm ex_host = (ex_pm, ex_host)" by simp
  ultimately show ?thesis using c ex_pending_facts by simp
qed

lemma pending_survives_step:
  assumes "map_of (pendingNodes pm) k \<noteq> None"
    and "map_of (pendingNodes (fst (pm_step op pm host))) k = None"
  shows "op = Clear \<or> (\<exists>self. op = Add k self)"
proof (cases op)
  case (Add g self)
  show ?thesis
  proof (cases "g = k")
    case True
    with Add show ?thesis by simp
  next
    case False
    with assms Add show ?thesis
      by (simp add: add_def Let_def delete_conv' split: if_splits option.splits)
  qed
next
  case (Remove g)
  with assms show ?thesis by (simp add: pendingNodes_remove)
next
  case (AddPendingNode g nd)
  with assms show ?thesis by (simp add: addPendingNode_def update_conv' split: if_splits)
next
  case Clear
  then show ?thesis by simp
qed

text \<open>
  C10. \<open>remove\<close> deletes the participant of the gamertag, cleans up its audio objects,
  and leaves the other participants and the pending nodes as they are; nodes pending
  under the gamertag removed are taken by a later \<open>add\<close>; and a step of the manager that
  makes a pending entry disappear is \<open>clear\<close> or the \<open>add\<close> of that gamertag.
\<close>

theorem remove_keeps_pending:
  "pendingNodes (fst (remove g pm host)) = pendingNodes pm
   \<and> \<not> has (fst (remove g pm host)) g
   \<and> (g' \<noteq> g \<longrightarrow> get (fst (remove g pm host)) g' = get pm g')
   \<and> snd (remove g pm host) = (case get pm g of Some p \<Rightarrow> cleanup p host | None \<Rightarrow> host)
   \<and> (map_of (pendingNodes pm) g = Some nd \<longrightarrow>
        (\<exists>p. get (fst (add g self (fst (remove g pm host)) host')) g = Some p
            \<and> gainNode p = nd_gainNode nd \<and> audioElement p = nd_audioElement nd
            \<and> source p = nd_source nd)
        \<and> map_of (pendingNodes (fst (add g self (fst (remove g pm host)) host'))) g = None)
   \<and> (map_of (pendingNodes pm) k \<noteq> None
        \<and> map_of (pendingNodes (fst (pm_step op pm host))) k = None \<longrightarrow>
        op = Clear \<or> (\<exists>self. op = Add k self))"
proof (intro conjI impI)
  show "pendingNodes (fst (remove g pm host)) = pendingNodes pm"
    by (rule pendingNodes_remove)
  show "\<not> has (fst (remove g pm host)) g"
    by (rule has_remove)
  show "snd (remove g pm host) = (case get pm g of Some p \<Rightarrow> cleanup p host | None \<Rightarrow> host)"
    by (simp add: remove_def get_def split: option.splits)
next
  assume "g' \<noteq> g"
  then show "get (fst (remove g pm host)) g' = get pm g'"
    by (simp add: remove_def get_def split: option.splits)
next
  assume h: "map_of (pendingNodes pm) g = Some nd"
  let ?pm = "fst (remove g pm host)"
  have a: "\<not> has ?pm g" by (rule has_remove)
  have b: "map_of (pendingNodes ?pm) g = Some nd" using h by (simp add: pendingNodes_remove)
  from add_absent_pending(1) [OF a b, of self host']
  show "\<exists>p. get (fst (add g self ?pm host')) g = Some p
            \<and> gainNode p = nd_gainNode nd \<and> audioElement p = nd_audioElement nd
            \<and> source p = nd_source nd"
    by (simp add: setAudioNodes_def)
  from add_absent_pending(2) [OF a b]
  show "map_of (pendingNodes (fst (add g self ?pm host'))) g = None" .
next
  assume "map_of (pendingNodes pm) k \<noteq> None
        \<and> map_of (pendingNodes (fst (pm_step op pm host))) k = None"
  then show "op = Clear \<or> (\<exists>self. op = Add k self)"
    using pending_survives_step by blast
qed

lemma ex_both_facts:
  "map_of (pendingNodes ex_both) ''Steve'' = Some ex_nodes"
  "has ex_both ''Steve''"
  by (simp_all add: ex_both_def addPendingNode_def ex_pm_def has_def)

theorem remove_keeps_pending_witness:
  "has ex_both ''Steve''
   \<and> map_of (pendingNodes ex_both) ''Steve'' = Some ex_nodes
   \<and> \<not> has (fst (remove ''Steve'' ex_both ex_host)) ''Steve''
   \<and> pendingNodes (fst (remove ''Steve'' ex_both ex_host)) = pendingNodes ex_both
   \<and> audioElement (the (get (fst (add ''Steve'' False (fst (remove ''Steve'' ex_both ex_host)) ex_host)) ''Steve'')) = Some 7
   \<and> map_of (pendingNodes (fst (add ''Steve'' False (fst (remove ''Steve'' ex_both ex_host)) ex_host))) ''Steve'' = None
   \<and> map_of (pendingNodes ex_both) ''Steve'' \<noteq> None
   \<and> map_of (pendingNodes (fst (pm_step Clear ex_both ex_host))) ''Steve'' = None
   \<and> ''Alex'' \<noteq> ''Steve''
   \<and> get (fst (remove ''Steve'' ex_both ex_host)) ''Alex'' = get ex_both ''Alex''"
proof -
  have c: "map_of (pendingNodes (fst (pm_step Clear ex_both ex_host))) ''Steve'' = None"
    by (simp add: clear_def)
  from remove_keeps_pending [where g = "''Steve''" and pm = ex_both and host = ex_host
      and nd = ex_nodes and self = False and host' = ex_host and k = "''Steve''" and op = Clear
      and g' = "''Alex''"]
    ex_both_facts
  obtain p where "pendingNodes (fst (remove ''Steve'' ex_both ex_host)) = pendingNodes ex_both"
    "get (fst (remove ''Steve'' ex_both ex_host)) ''Alex'' = get ex_both ''Alex''"
    "get (fst (add ''Steve'' False (fst (remove ''Steve'' ex_both ex_host)) ex_host)) ''Steve'' = Some p"
    "audioElement p = Some 7"
    "map_of (pendingNodes (fst (add ''Steve'' False (fst (remove ''Steve'' ex_both ex_host)) ex_host))) ''Steve'' = None"
    by (auto simp add: ex_nodes_def)
  with c ex_both_facts has_remove [of "''Steve''" ex_both ex_host] show ?thesis by simp
qed


subsection \<open>WebRTCManager: creating, renegotiating and reconnecting\<close>

lemma createPeerConnection_existing:
  "getPeerConnection w g = Some pc \<Longrightarrow>
   createPeerConnection ae g w = (pc, w, [Log (AlreadyExists g)])"
  by (simp add: createPeerConnection_def getPeerConnection_def)

lemma createPeerConnection_new:
  "getPeerConnection w g = None \<Longrightarrow>
   createPeerConnection ae g w =
     (new_RTCPeerConnection ae, storeConnection g (new_RTCPeerConnection ae) w,
      NewRTCPeerConnection g # map (AddTrack g) (localTracks ae) @ [Log (ConnectingTo g)])"
  by (simp add: createPeerConnection_def getPeerConnection_def Let_def)

lemma getPeerConnection_store:
  "getPeerConnection (storeConnection g pc w) g' = (if g' = g then Some pc else getPeerConnection w g')"
  by (simp add: getPeerConnection_def storeConnection_def update_conv')

lemma store_fields:
  "ws (storeConnection g pc w) = ws w" "currentGamertag (storeConnection g pc w) = currentGamertag w"
  by (simp_all add: storeConnection_def)

text \<open>
  C9. \<open>createPeerConnection\<close> for a gamertag that has a connection returns that connection
  and creates nothing (the only thing it does is write a line); for a gamertag that has
  none it creates a connection with \<^verbatim>\<open>_isInitialConnection\<close> true and
  \<^verbatim>\<open>_reconnectAttempts\<close> 0 and registers it, so that a second call returns the same one.
\<close>

theorem createPeerConnection_idempotent:
  "(getPeerConnection w g = Some pc \<longrightarrow>
      createPeerConnection ae g w = (pc, w, [Log (AlreadyExists g)]))
   \<and> (getPeerConnection w g = None \<longrightarrow>
        (\<exists>pc' w' ev. createPeerConnection ae g w = (pc', w', ev)
           \<and> isInitialConnection pc' \<and> reconnectAttempts pc' = 0
           \<and> getPeerConnection w' g = Some pc'
           \<and> NewRTCPeerConnection g \<in> set ev
           \<and> createPeerConnection ae' g w' = (pc', w', [Log (AlreadyExists g)])))"
proof (intro conjI impI)
  assume "getPeerConnection w g = Some pc"
  then show "createPeerConnection ae g w = (pc, w, [Log (AlreadyExists g)])"
    by (rule createPeerConnection_existing)
next
  assume h: "getPeerConnection w g = None"
  let ?pc = "new_RTCPeerConnection ae"
  let ?w = "storeConnection g ?pc w"
  have 2: "getPeerConnection ?w g = Some ?pc"
    by (simp add: getPeerConnection_store)
  have 4: "isInitialConnection ?pc \<and> reconnectAttempts ?pc = 0"
    by (simp add: new_RTCPeerConnection_def)
  from createPeerConnection_new [OF h, of ae] 2 createPeerConnection_existing [OF 2, of ae'] 4
  show "\<exists>pc' w' ev. createPeerConnection ae g w = (pc', w', ev)
           \<and> isInitialConnection pc' \<and> reconnectAttempts pc' = 0
           \<and> getPeerConnection w' g = Some pc'
           \<and> NewRTCPeerConnection g \<in> set ev
           \<and> createPeerConnection ae' g w' = (pc', w', [Log (AlreadyExists g)])"
    by simp
qed

lemma originateOffer_events:
  "\<exists>rest. fst (snd (originateOffer t g pc)) = CreateOffer g # rest"
  by (simp add: originateOffer_def split: option.splits)

lemma originateOffer_flags:
  "isInitialConnection (fst (originateOffer t g pc)) = isInitialConnection pc"
  "reconnectAttempts (fst (originateOffer t g pc)) = reconnectAttempts pc"
  by (simp_all add: originateOffer_def split: option.splits)

lemma originateOffer_ok:
  "createOffer t g pc = Some offer \<Longrightarrow> setLocalDescription t g pc offer = Some s \<Longrightarrow>
   originateOffer t g pc = (pc\<lparr>signalingState := s\<rparr>, [CreateOffer g, SetLocalDescription g offer], Some offer)"
  by (simp add: originateOffer_def)

text \<open>
  C7. While \<^verbatim>\<open>_isInitialConnection\<close> is true, a negotiation-needed event creates no offer
  and sends nothing. Once it is false, an offer is created and sent when the signaling
  state is stable (and the browser accepts the calls, and the socket is open); in any
  other signaling state the event is skipped and the manager is left as it was, so
  nothing is kept for later. An offer created or a message sent means the flag was false
  and the state stable.
\<close>

theorem onnegotiationneeded_guards:
  assumes "getPeerConnection w g = Some pc"
  shows "(isInitialConnection pc \<longrightarrow>
            onnegotiationneeded t g w = (w, [Log (SkipInitialConnection g)]))
       \<and> (\<not> isInitialConnection pc \<and> signalingState pc \<noteq> Stable \<longrightarrow>
            onnegotiationneeded t g w =
              (w, [Log (RenegotiationNeeded g), Log (SkipSignalingState g (signalingState pc))]))
       \<and> (\<not> isInitialConnection pc \<and> signalingState pc = Stable
            \<and> createOffer t g pc = Some offer \<and> setLocalDescription t g pc offer = Some s
            \<and> ws w = Some 1 \<longrightarrow>
            onnegotiationneeded t g w =
              (storeConnection g (pc\<lparr>signalingState := s\<rparr>) w,
               [Log (RenegotiationNeeded g), CreateOffer g, SetLocalDescription g offer,
                WsSend (Offer (currentGamertag w) g offer), Log (RenegotiationOfferSent g)]))
       \<and> ((CreateOffer g \<in> set (snd (onnegotiationneeded t g w))
            \<or> (\<exists>m. WsSend m \<in> set (snd (onnegotiationneeded t g w)))) \<longrightarrow>
            \<not> isInitialConnection pc \<and> signalingState pc = Stable)"
proof (intro conjI impI)
  assume "isInitialConnection pc"
  with assms show "onnegotiationneeded t g w = (w, [Log (SkipInitialConnection g)])"
    by (simp add: onnegotiationneeded_def getPeerConnection_def)
next
  assume "\<not> isInitialConnection pc \<and> signalingState pc \<noteq> Stable"
  with assms show "onnegotiationneeded t g w =
              (w, [Log (RenegotiationNeeded g), Log (SkipSignalingState g (signalingState pc))])"
    by (simp add: onnegotiationneeded_def getPeerConnection_def)
next
  assume "\<not> isInitialConnection pc \<and> signalingState pc = Stable
            \<and> createOffer t g pc = Some offer \<and> setLocalDescription t g pc offer = Some s
            \<and> ws w = Some 1"
  with assms show "onnegotiationneeded t g w =
              (storeConnection g (pc\<lparr>signalingState := s\<rparr>) w,
               [Log (RenegotiationNeeded g), CreateOffer g, SetLocalDescription g offer,
                WsSend (Offer (currentGamertag w) g offer), Log (RenegotiationOfferSent g)])"
    by (simp add: onnegotiationneeded_def getPeerConnection_def originateOffer_ok)
next
  assume h: "CreateOffer g \<in> set (snd (onnegotiationneeded t g w))
            \<or> (\<exists>m. WsSend m \<in> set (snd (onnegotiationneeded t g w)))"
  show "\<not> isInitialConnection pc"
  proof
    assume "isInitialConnection pc"
    with assms have "onnegotiationneeded t g w = (w, [Log (SkipInitialConnection g)])"
      by (simp add: onnegotiationneeded_def getPeerConnection_def)
    with h show False by auto
  qed
  show "signalingState pc = Stable"
  proof (rule ccontr)
    assume n: "signalingState pc \<noteq> Stable"
    with assms have "snd (onnegotiationneeded t g w) = [Log (SkipInitialConnection g)]
        \<or> snd (onnegotiationneeded t g w) = [Log (RenegotiationNeeded g), Log (SkipSignalingState g (signalingState pc))]"
      by (simp add: onnegotiationneeded_def getPeerConnection_def)
    with h show False by auto
  qed
qed

lemma closePeerConnection_present:
  "getPeerConnection w g = Some pc \<Longrightarrow>
   closePeerConnection g w =
     (w\<lparr>peerConnections := AList.delete g (peerConnections w)\<rparr>, [PcClose g, Log (ConnectionClosed g)])"
  by (simp add: closePeerConnection_def getPeerConnection_def)

lemma getPeerConnection_deleted:
  "getPeerConnection (w\<lparr>peerConnections := AList.delete g (peerConnections w)\<rparr>) g = None"
  by (simp add: getPeerConnection_def delete_conv')

lemma storeConnection_twice:
  "storeConnection g pc (storeConnection g pc' w) = storeConnection g pc w"
  by (simp add: storeConnection_def)

lemma attemptReconnect_exhausted:
  "getPeerConnection w g = Some pc \<Longrightarrow> 3 \<le> reconnectAttempts pc \<Longrightarrow>
   attemptReconnect t ae g w = (w, [Log (MaxReconnectAttempts g)])"
  by (simp add: attemptReconnect_def getPeerConnection_def)

lemma attemptReconnect_retry:
  assumes "getPeerConnection w g = Some pc" and "reconnectAttempts pc < 3"
  shows "attemptReconnect t ae g w =
     (case originateOffer t g ((new_RTCPeerConnection ae)\<lparr>reconnectAttempts := reconnectAttempts pc + 1\<rparr>) of
        (pc', ev3, sent) \<Rightarrow>
          (storeConnection g pc' (w\<lparr>peerConnections := AList.delete g (peerConnections w)\<rparr>),
           [Log (ReconnectionAttempt g (reconnectAttempts pc + 1)), PcClose g, Log (ConnectionClosed g),
            Delay 1000, NewRTCPeerConnection g] @ map (AddTrack g) (localTracks ae)
             @ [Log (ConnectingTo g)] @ ev3
             @ (case sent of
                  Some offer \<Rightarrow> sendIfOpen w (Offer (currentGamertag w) g offer)
                | None \<Rightarrow> [Log (ReconnectionFailed g)])))"
proof -
  let ?wd = "w\<lparr>peerConnections := AList.delete g (peerConnections w)\<rparr>"
  have c: "createPeerConnection ae g ?wd =
     (new_RTCPeerConnection ae, storeConnection g (new_RTCPeerConnection ae) ?wd,
      NewRTCPeerConnection g # map (AddTrack g) (localTracks ae) @ [Log (ConnectingTo g)])"
    by (rule createPeerConnection_new) (rule getPeerConnection_deleted)
  have s: "sendIfOpen (storeConnection g (new_RTCPeerConnection ae) ?wd) m = sendIfOpen w m" for m
    by (simp add: sendIfOpen_def storeConnection_def)
  have g: "currentGamertag (storeConnection g (new_RTCPeerConnection ae) ?wd) = currentGamertag w"
    by (simp add: storeConnection_def)
  from assms have a: "(case map_of (peerConnections w) g of Some oldPc \<Rightarrow> reconnectAttempts oldPc | None \<Rightarrow> 0) + 1
      = reconnectAttempts pc + 1"
    by (simp add: getPeerConnection_def)
  show ?thesis
    unfolding attemptReconnect_def a Let_def
    using assms(2)
    by (simp add: closePeerConnection_present [OF assms(1)] c s g storeConnection_twice
        split: prod.splits option.splits)
qed

lemma failed_event:
  assumes "getPeerConnection w g = Some pc"
  shows "onconnectionstatechange t ae g Failed w =
     (case attemptReconnect t ae g (storeConnection g (pc\<lparr>connectionState := Failed\<rparr>) w) of
        (w1, ev1) \<Rightarrow>
          (w1, [Log (ConnectionState g Failed), Log (ConnectionFailed g)] @ ev1))"
  using assms by (simp add: onconnectionstatechange_def getPeerConnection_def Let_def)

lemma delete_store:
  "(storeConnection g pc w)\<lparr>peerConnections := AList.delete g (peerConnections (storeConnection g pc w))\<rparr>
   = w\<lparr>peerConnections := AList.delete g (peerConnections w)\<rparr>"
  by (simp add: storeConnection_def delete_update_same)

text \<open>
  C6, as the code has it. A failed connection whose attempt count is below 3 is closed
  and removed, a second passes, a new connection is created with the count one higher,
  and an offer is created for it; when the browser accepts the calls and the socket is
  open, the offer is sent. A failed connection whose count is 3 or more stays registered
  as it is: nothing is closed, nothing is created, the line about the exhausted attempts
  is written, and a further failure of it does the same again.
\<close>

theorem failed_connection_reconnects:
  assumes "getPeerConnection w g = Some pc"
  shows "(reconnectAttempts pc < 3 \<longrightarrow>
          (\<exists>w' rest newPc.
              onconnectionstatechange t ae g Failed w =
                (w', [Log (ConnectionState g Failed), Log (ConnectionFailed g),
                      Log (ReconnectionAttempt g (reconnectAttempts pc + 1)),
                      PcClose g, Log (ConnectionClosed g), Delay 1000, NewRTCPeerConnection g]
                     @ map (AddTrack g) (localTracks ae)
                     @ [Log (ConnectingTo g), CreateOffer g] @ rest)
            \<and> getPeerConnection w' g = Some newPc
            \<and> reconnectAttempts newPc = reconnectAttempts pc + 1
            \<and> isInitialConnection newPc \<and> connectionState newPc = ConnNew
            \<and> (createOffer t g ((new_RTCPeerConnection ae)\<lparr>reconnectAttempts := reconnectAttempts pc + 1\<rparr>)
                  = Some offer
               \<and> setLocalDescription t g
                    ((new_RTCPeerConnection ae)\<lparr>reconnectAttempts := reconnectAttempts pc + 1\<rparr>) offer
                  = Some s
               \<and> ws w = Some 1 \<longrightarrow>
               rest = [SetLocalDescription g offer, WsSend (Offer (currentGamertag w) g offer)])))
       \<and> (3 \<le> reconnectAttempts pc \<longrightarrow>
            onconnectionstatechange t ae g Failed w =
              (storeConnection g (pc\<lparr>connectionState := Failed\<rparr>) w,
               [Log (ConnectionState g Failed), Log (ConnectionFailed g), Log (MaxReconnectAttempts g)])
          \<and> onconnectionstatechange t ae g Failed (storeConnection g (pc\<lparr>connectionState := Failed\<rparr>) w) =
              (storeConnection g (pc\<lparr>connectionState := Failed\<rparr>) w,
               [Log (ConnectionState g Failed), Log (ConnectionFailed g), Log (MaxReconnectAttempts g)]))"
proof (intro conjI impI)
  assume lt: "reconnectAttempts pc < 3"
  let ?pcF = "pc\<lparr>connectionState := Failed\<rparr>"
  let ?w0 = "storeConnection g ?pcF w"
  let ?wd = "w\<lparr>peerConnections := AList.delete g (peerConnections w)\<rparr>"
  let ?pcN = "(new_RTCPeerConnection ae)\<lparr>reconnectAttempts := reconnectAttempts pc + 1\<rparr>"
  have g0: "getPeerConnection ?w0 g = Some ?pcF" by (simp add: getPeerConnection_store)
  have lt': "reconnectAttempts ?pcF < 3" using lt by simp
  obtain pc' ev3 sent where o: "originateOffer t g ?pcN = (pc', ev3, sent)"
    by (cases "originateOffer t g ?pcN") auto
  from originateOffer_events [of t g ?pcN] o obtain r where r: "ev3 = CreateOffer g # r" by auto
  let ?tail = "(case sent of Some offer \<Rightarrow> sendIfOpen w (Offer (currentGamertag w) g offer)
                | None \<Rightarrow> [Log (ReconnectionFailed g)])"
  have run: "onconnectionstatechange t ae g Failed w =
      (storeConnection g pc' ?wd,
       [Log (ConnectionState g Failed), Log (ConnectionFailed g),
        Log (ReconnectionAttempt g (reconnectAttempts pc + 1)),
        PcClose g, Log (ConnectionClosed g), Delay 1000, NewRTCPeerConnection g]
       @ map (AddTrack g) (localTracks ae) @ [Log (ConnectingTo g), CreateOffer g] @ (r @ ?tail))"
    using o r
    by (simp add: failed_event [OF assms] attemptReconnect_retry [OF g0 lt'] delete_store
        sendIfOpen_def store_fields split: option.splits)
  have f: "reconnectAttempts pc' = reconnectAttempts pc + 1 \<and> isInitialConnection pc'
      \<and> connectionState pc' = ConnNew"
    using o by (auto simp add: originateOffer_def new_RTCPeerConnection_def split: option.splits)
  have ok: "r @ ?tail = [SetLocalDescription g offer, WsSend (Offer (currentGamertag w) g offer)]"
    if h: "createOffer t g ?pcN = Some offer \<and> setLocalDescription t g ?pcN offer = Some s \<and> ws w = Some 1"
  proof -
    from h have "originateOffer t g ?pcN =
        (?pcN\<lparr>signalingState := s\<rparr>, [CreateOffer g, SetLocalDescription g offer], Some offer)"
      by (simp add: originateOffer_ok)
    with o have "sent = Some offer" "ev3 = [CreateOffer g, SetLocalDescription g offer]"
      by simp_all
    with r h show ?thesis by (simp add: sendIfOpen_def)
  qed
  from run f ok show "\<exists>w' rest newPc.
              onconnectionstatechange t ae g Failed w =
                (w', [Log (ConnectionState g Failed), Log (ConnectionFailed g),
                      Log (ReconnectionAttempt g (reconnectAttempts pc + 1)),
                      PcClose g, Log (ConnectionClosed g), Delay 1000, NewRTCPeerConnection g]
                     @ map (AddTrack g) (localTracks ae)
                     @ [Log (ConnectingTo g), CreateOffer g] @ rest)
            \<and> getPeerConnection w' g = Some newPc
            \<and> reconnectAttempts newPc = reconnectAttempts pc + 1
            \<and> isInitialConnection newPc \<and> connectionState newPc = ConnNew
            \<and> (createOffer t g ?pcN = Some offer
               \<and> setLocalDescription t g ?pcN offer = Some s
               \<and> ws w = Some 1 \<longrightarrow>
               rest = [SetLocalDescription g offer, WsSend (Offer (currentGamertag w) g offer)])"
    by (intro exI [of _ "storeConnection g pc' ?wd"] exI [of _ "r @ ?tail"] exI [of _ pc'])
      (simp add: getPeerConnection_store)
next
  assume ge: "3 \<le> reconnectAttempts pc"
  let ?pcF = "pc\<lparr>connectionState := Failed\<rparr>"
  let ?w0 = "storeConnection g ?pcF w"
  have g0: "getPeerConnection ?w0 g = Some ?pcF" by (simp add: getPeerConnection_store)
  have ge': "3 \<le> reconnectAttempts ?pcF" using ge by simp
  show "onconnectionstatechange t ae g Failed w =
              (?w0, [Log (ConnectionState g Failed), Log (ConnectionFailed g), Log (MaxReconnectAttempts g)])"
    by (simp add: failed_event [OF assms] attemptReconnect_exhausted [OF g0 ge'])
  have "?pcF\<lparr>connectionState := Failed\<rparr> = ?pcF" by simp
  then show "onconnectionstatechange t ae g Failed ?w0 =
              (?w0, [Log (ConnectionState g Failed), Log (ConnectionFailed g), Log (MaxReconnectAttempts g)])"
    by (simp add: failed_event [OF g0] storeConnection_twice attemptReconnect_exhausted [OF g0 ge'])
qed

lemma ex_linked_eq: "ex_linked = ex_manager\<lparr>peerConnections := [(''Steve'', ex_pc 0 Stable)]\<rparr>"
  by (simp add: ex_linked_def createPeerConnection_def ex_manager_def new_RTCPeerConnection_def
      localTracks_def getProcessedStream_def ex_effects_def new_AudioEffectsManager_def
      storeConnection_def ex_pc_def Let_def)

lemma ex_new: "new_RTCPeerConnection ex_effects = ex_pc 0 Stable"
  by (simp add: new_RTCPeerConnection_def localTracks_def getProcessedStream_def ex_effects_def
      new_AudioEffectsManager_def ex_pc_def)

lemma ex_fail_step:
  assumes "n < 3"
  shows "ex_fail (ex_manager\<lparr>peerConnections := [(''Steve'', ex_pc n s)]\<rparr>)
       = ex_manager\<lparr>peerConnections := [(''Steve'', ex_pc (Suc n) HaveLocalOffer)]\<rparr>"
proof -
  let ?w = "ex_manager\<lparr>peerConnections := [(''Steve'', ex_pc n s)]\<rparr>"
  have g: "getPeerConnection ?w ''Steve'' = Some (ex_pc n s)"
    by (simp add: getPeerConnection_def)
  have g0: "getPeerConnection (storeConnection ''Steve'' ((ex_pc n s)\<lparr>connectionState := Failed\<rparr>) ?w) ''Steve''
      = Some ((ex_pc n s)\<lparr>connectionState := Failed\<rparr>)"
    by (simp add: getPeerConnection_store)
  have lt: "reconnectAttempts ((ex_pc n s)\<lparr>connectionState := Failed\<rparr>) < 3"
    using assms by (simp add: ex_pc_def)
  have o: "originateOffer ex_transport ''Steve''
        ((new_RTCPeerConnection ex_effects)
           \<lparr>reconnectAttempts := reconnectAttempts ((ex_pc n s)\<lparr>connectionState := Failed\<rparr>) + 1\<rparr>)
      = (ex_pc (Suc n) HaveLocalOffer, [CreateOffer ''Steve'', SetLocalDescription ''Steve'' (SdpOffer 1)],
         Some (SdpOffer 1))"
    by (simp add: ex_new) (simp add: originateOffer_def ex_transport_def ex_pc_def)
  show ?thesis
    unfolding ex_fail_def failed_event [OF g] attemptReconnect_retry [OF g0 lt] o
    by (simp add: storeConnection_def ex_manager_def)
qed

lemma ex_exhausted: "ex_fail (ex_fail (ex_fail ex_linked))
    = ex_manager\<lparr>peerConnections := [(''Steve'', ex_pc 3 HaveLocalOffer)]\<rparr>"
  by (simp add: ex_linked_eq ex_fail_step numeral_3_eq_3)

text \<open>
  C6, as the claim states it, fails in its last part: after three reconnections the
  fourth failure writes the line about the exhausted attempts and leaves the failed
  connection registered under the gamertag; the link is not absent.
\<close>

theorem exhausted_link_remains_counterexample:
  "reconnectAttempts (the (getPeerConnection (ex_fail (ex_fail (ex_fail ex_linked))) ''Steve'')) = 3
   \<and> snd (onconnectionstatechange ex_transport ex_effects ''Steve'' Failed (ex_fail (ex_fail (ex_fail ex_linked))))
       = [Log (ConnectionState ''Steve'' Failed), Log (ConnectionFailed ''Steve''),
          Log (MaxReconnectAttempts ''Steve'')]
   \<and> getPeerConnection (ex_fail (ex_fail (ex_fail (ex_fail ex_linked)))) ''Steve'' \<noteq> None"
proof -
  let ?w = "ex_manager\<lparr>peerConnections := [(''Steve'', ex_pc 3 HaveLocalOffer)]\<rparr>"
  have g: "getPeerConnection ?w ''Steve'' = Some (ex_pc 3 HaveLocalOffer)"
    by (simp add: getPeerConnection_def)
  have g0: "getPeerConnection (storeConnection ''Steve'' ((ex_pc 3 HaveLocalOffer)\<lparr>connectionState := Failed\<rparr>) ?w) ''Steve''
      = Some ((ex_pc 3 HaveLocalOffer)\<lparr>connectionState := Failed\<rparr>)"
    by (simp add: getPeerConnection_store)
  have ge: "3 \<le> reconnectAttempts ((ex_pc 3 HaveLocalOffer)\<lparr>connectionState := Failed\<rparr>)"
    by (simp add: ex_pc_def)
  have run: "onconnectionstatechange ex_transport ex_effects ''Steve'' Failed ?w =
      (storeConnection ''Steve'' ((ex_pc 3 HaveLocalOffer)\<lparr>connectionState := Failed\<rparr>) ?w,
       [Log (ConnectionState ''Steve'' Failed), Log (ConnectionFailed ''Steve''),
        Log (MaxReconnectAttempts ''Steve'')])"
    by (simp add: failed_event [OF g] attemptReconnect_exhausted [OF g0 ge])
  have a: "reconnectAttempts (the (getPeerConnection (ex_fail (ex_fail (ex_fail ex_linked))) ''Steve'')) = 3"
    by (simp only: ex_exhausted g) (simp add: ex_pc_def)
  have b: "snd (onconnectionstatechange ex_transport ex_effects ''Steve'' Failed (ex_fail (ex_fail (ex_fail ex_linked))))
       = [Log (ConnectionState ''Steve'' Failed), Log (ConnectionFailed ''Steve''),
          Log (MaxReconnectAttempts ''Steve'')]"
    by (simp add: ex_exhausted run)
  have c: "getPeerConnection (ex_fail (ex_fail (ex_fail (ex_fail ex_linked)))) ''Steve'' \<noteq> None"
    by (simp add: ex_exhausted) (simp add: ex_fail_def run getPeerConnection_store)
  from a b c show ?thesis by simp
qed

theorem failed_connection_reconnects_witness:
  "getPeerConnection ex_linked ''Steve'' = Some (ex_pc 0 Stable)
   \<and> reconnectAttempts (ex_pc 0 Stable) < 3
   \<and> createOffer ex_transport ''Steve''
        ((new_RTCPeerConnection ex_effects)\<lparr>reconnectAttempts := reconnectAttempts (ex_pc 0 Stable) + 1\<rparr>)
        = Some (SdpOffer 1)
   \<and> setLocalDescription ex_transport ''Steve''
        ((new_RTCPeerConnection ex_effects)\<lparr>reconnectAttempts := reconnectAttempts (ex_pc 0 Stable) + 1\<rparr>)
        (SdpOffer 1) = Some HaveLocalOffer
   \<and> ws ex_linked = Some 1
   \<and> snd (onconnectionstatechange ex_transport ex_effects ''Steve'' Failed ex_linked) =
       [Log (ConnectionState ''Steve'' Failed), Log (ConnectionFailed ''Steve''),
        Log (ReconnectionAttempt ''Steve'' 1), PcClose ''Steve'', Log (ConnectionClosed ''Steve''),
        Delay 1000, NewRTCPeerConnection ''Steve'', AddTrack ''Steve'' 5, Log (ConnectingTo ''Steve''),
        CreateOffer ''Steve'', SetLocalDescription ''Steve'' (SdpOffer 1),
        WsSend (Offer ''Alex'' ''Steve'' (SdpOffer 1))]
   \<and> reconnectAttempts (the (getPeerConnection (ex_fail ex_linked) ''Steve'')) = 1
   \<and> getPeerConnection (ex_fail (ex_fail (ex_fail ex_linked))) ''Steve'' = Some (ex_pc 3 HaveLocalOffer)
   \<and> 3 \<le> reconnectAttempts (ex_pc 3 HaveLocalOffer)
   \<and> onconnectionstatechange ex_transport ex_effects ''Steve'' Failed (ex_fail (ex_fail (ex_fail ex_linked))) =
        (storeConnection ''Steve'' ((ex_pc 3 HaveLocalOffer)\<lparr>connectionState := Failed\<rparr>)
           (ex_fail (ex_fail (ex_fail ex_linked))),
         [Log (ConnectionState ''Steve'' Failed), Log (ConnectionFailed ''Steve''),
          Log (MaxReconnectAttempts ''Steve'')])"
proof -
  have g1: "getPeerConnection ex_linked ''Steve'' = Some (ex_pc 0 Stable)"
    by (simp add: ex_linked_eq getPeerConnection_def)
  have h1: "reconnectAttempts (ex_pc 0 Stable) < 3" by (simp add: ex_pc_def)
  have h2: "createOffer ex_transport ''Steve''
        ((new_RTCPeerConnection ex_effects)\<lparr>reconnectAttempts := reconnectAttempts (ex_pc 0 Stable) + 1\<rparr>)
        = Some (SdpOffer 1)"
    by (simp add: ex_new) (simp add: ex_transport_def ex_pc_def)
  have h3: "setLocalDescription ex_transport ''Steve''
        ((new_RTCPeerConnection ex_effects)\<lparr>reconnectAttempts := reconnectAttempts (ex_pc 0 Stable) + 1\<rparr>)
        (SdpOffer 1) = Some HaveLocalOffer"
    by (simp add: ex_new) (simp add: ex_transport_def ex_pc_def)
  have h4: "ws ex_linked = Some 1" by (simp add: ex_linked_eq ex_manager_def)
  have t: "localTracks ex_effects = [5]"
    by (simp add: localTracks_def getProcessedStream_def ex_effects_def)
  have cg: "currentGamertag ex_linked = ''Alex''" by (simp add: ex_linked_eq ex_manager_def)
  from failed_connection_reconnects [OF g1, of ex_transport ex_effects "SdpOffer 1" HaveLocalOffer]
    h1 h2 h3 h4
  obtain w' newPc where
    r: "onconnectionstatechange ex_transport ex_effects ''Steve'' Failed ex_linked =
       (w', [Log (ConnectionState ''Steve'' Failed), Log (ConnectionFailed ''Steve''),
        Log (ReconnectionAttempt ''Steve'' 1), PcClose ''Steve'', Log (ConnectionClosed ''Steve''),
        Delay 1000, NewRTCPeerConnection ''Steve'', AddTrack ''Steve'' 5, Log (ConnectingTo ''Steve''),
        CreateOffer ''Steve'', SetLocalDescription ''Steve'' (SdpOffer 1),
        WsSend (Offer ''Alex'' ''Steve'' (SdpOffer 1))])"
    and n: "getPeerConnection w' ''Steve'' = Some newPc" "reconnectAttempts newPc = 1"
    by (auto simp add: t cg ex_pc_def)
  have g3: "getPeerConnection (ex_fail (ex_fail (ex_fail ex_linked))) ''Steve'' = Some (ex_pc 3 HaveLocalOffer)"
    by (simp add: ex_exhausted getPeerConnection_def)
  have h5: "3 \<le> reconnectAttempts (ex_pc 3 HaveLocalOffer)" by (simp add: ex_pc_def)
  from failed_connection_reconnects [OF g3, of ex_transport ex_effects] h5
  have e: "onconnectionstatechange ex_transport ex_effects ''Steve'' Failed (ex_fail (ex_fail (ex_fail ex_linked))) =
        (storeConnection ''Steve'' ((ex_pc 3 HaveLocalOffer)\<lparr>connectionState := Failed\<rparr>)
           (ex_fail (ex_fail (ex_fail ex_linked))),
         [Log (ConnectionState ''Steve'' Failed), Log (ConnectionFailed ''Steve''),
          Log (MaxReconnectAttempts ''Steve'')])"
    by simp
  from r n have "reconnectAttempts (the (getPeerConnection (ex_fail ex_linked) ''Steve'')) = 1"
    by (simp add: ex_fail_def)
  with g1 h1 h2 h3 h4 r g3 h5 e show ?thesis by simp
qed

subsection \<open>Signaling and effect changes\<close>

text \<open>
  C8. An offer, an answer or a candidate addressed to another gamertag is dropped: the
  application is unchanged and nothing is done. So is a join that names the local
  gamertag. An offer for a link whose signaling state is neither stable nor
  have-local-offer is not applied and not answered. An answer is applied only to a link
  in have-local-offer, and a candidate only when the sender has a link.
\<close>

theorem handleSignaling_guards:
  "(to \<noteq> app_currentGamertag app \<longrightarrow>
      handleSignaling t (Offer peer to d) app = (app, [])
      \<and> handleSignaling t (Answer peer to d) app = (app, [])
      \<and> handleSignaling t (IceCandidate peer to c) app = (app, []))
   \<and> handleSignaling t (Join (app_currentGamertag app)) app = (app, [])
   \<and> (getPeerConnection (webrtc app) peer = Some pc
        \<and> signalingState pc \<noteq> Stable \<and> signalingState pc \<noteq> HaveLocalOffer \<longrightarrow>
        webrtc (fst (handleSignaling t (Offer peer (app_currentGamertag app) d) app)) = webrtc app
        \<and> snd (handleSignaling t (Offer peer (app_currentGamertag app) d) app)
            = [Log (ReceivedOffer peer), Log (AlreadyExists peer), UpdateUI])
   \<and> (getPeerConnection (webrtc app) peer = None
        \<or> (\<exists>pc'. getPeerConnection (webrtc app) peer = Some pc' \<and> signalingState pc' \<noteq> HaveLocalOffer) \<longrightarrow>
        handleSignaling t (Answer peer (app_currentGamertag app) d) app = (app, [Log (ReceivedAnswer peer)]))
   \<and> (getPeerConnection (webrtc app) peer = None \<longrightarrow>
        handleSignaling t (IceCandidate peer (app_currentGamertag app) c) app = (app, []))"
proof (intro conjI impI)
  assume h: "getPeerConnection (webrtc app) peer = Some pc
        \<and> signalingState pc \<noteq> Stable \<and> signalingState pc \<noteq> HaveLocalOffer"
  then have c: "createPeerConnection (audioEffects app) peer (webrtc app)
      = (pc, webrtc app, [Log (AlreadyExists peer)])"
    by (simp add: createPeerConnection_existing)
  obtain pm au where a: "add peer False (participantsManager app) (audio app) = (pm, au)"
    by (cases "add peer False (participantsManager app) (audio app)")
  from h have r: "signalOffer t peer d app =
      (app\<lparr>participantsManager := pm, audio := au, webrtc := webrtc app\<rparr>,
       [Log (ReceivedOffer peer), Log (AlreadyExists peer), UpdateUI])"
    by (simp add: signalOffer_def a c)
  show "webrtc (fst (handleSignaling t (Offer peer (app_currentGamertag app) d) app)) = webrtc app"
    by (simp add: r)
  show "snd (handleSignaling t (Offer peer (app_currentGamertag app) d) app)
            = [Log (ReceivedOffer peer), Log (AlreadyExists peer), UpdateUI]"
    by (simp add: r)
next
  assume "getPeerConnection (webrtc app) peer = None
        \<or> (\<exists>pc'. getPeerConnection (webrtc app) peer = Some pc' \<and> signalingState pc' \<noteq> HaveLocalOffer)"
  then show "handleSignaling t (Answer peer (app_currentGamertag app) d) app = (app, [Log (ReceivedAnswer peer)])"
    by (auto simp add: signalAnswer_def)
next
  assume "getPeerConnection (webrtc app) peer = None"
  then show "handleSignaling t (IceCandidate peer (app_currentGamertag app) c) app = (app, [])"
    by (simp add: signalIceCandidate_def)
qed simp_all

lemma ex_app_facts:
  "app_currentGamertag ex_app = ''Alex''"
  "getPeerConnection (webrtc ex_app) ''Steve'' = Some (ex_pc 0 HaveRemoteOffer)"
  "getPeerConnection (webrtc ex_app) ''Bob'' = None"
  "signalingState (ex_pc 0 HaveRemoteOffer) = HaveRemoteOffer"
  by (simp_all add: ex_app_def getPeerConnection_store ex_pc_def)
    (simp add: getPeerConnection_def ex_manager_def)

theorem handleSignaling_guards_witness:
  "''Bob'' \<noteq> app_currentGamertag ex_app
   \<and> handleSignaling ex_transport (Offer ''Steve'' ''Bob'' (SdpOffer 9)) ex_app = (ex_app, [])
   \<and> handleSignaling ex_transport (Answer ''Steve'' ''Bob'' (SdpOffer 9)) ex_app = (ex_app, [])
   \<and> handleSignaling ex_transport (IceCandidate ''Steve'' ''Bob'' (Some 4)) ex_app = (ex_app, [])
   \<and> handleSignaling ex_transport (Join ''Alex'') ex_app = (ex_app, [])
   \<and> getPeerConnection (webrtc ex_app) ''Steve'' = Some (ex_pc 0 HaveRemoteOffer)
   \<and> signalingState (ex_pc 0 HaveRemoteOffer) \<noteq> Stable
   \<and> signalingState (ex_pc 0 HaveRemoteOffer) \<noteq> HaveLocalOffer
   \<and> webrtc (fst (handleSignaling ex_transport (Offer ''Steve'' ''Alex'' (SdpOffer 9)) ex_app)) = webrtc ex_app
   \<and> snd (handleSignaling ex_transport (Offer ''Steve'' ''Alex'' (SdpOffer 9)) ex_app)
       = [Log (ReceivedOffer ''Steve''), Log (AlreadyExists ''Steve''), UpdateUI]
   \<and> handleSignaling ex_transport (Answer ''Steve'' ''Alex'' (SdpAnswer 9)) ex_app
       = (ex_app, [Log (ReceivedAnswer ''Steve'')])
   \<and> getPeerConnection (webrtc ex_app) ''Bob'' = None
   \<and> handleSignaling ex_transport (IceCandidate ''Bob'' ''Alex'' (Some 4)) ex_app = (ex_app, [])"
  using handleSignaling_guards [where app = ex_app and t = ex_transport and to = "''Bob''"
      and peer = "''Steve''" and d = "SdpOffer 9" and c = "Some 4" and pc = "ex_pc 0 HaveRemoteOffer"]
    handleSignaling_guards [where app = ex_app and t = ex_transport and peer = "''Steve''"
      and d = "SdpAnswer 9"]
    handleSignaling_guards [where app = ex_app and t = ex_transport and peer = "''Bob''"
      and c = "Some 4"]
  by (simp add: ex_app_facts)

lemma ex_offer_answered:
  "snd (handleSignaling ex_transport (Offer ''Bob'' ''Alex'' (SdpOffer 9)) ex_app)
   = [Log (ReceivedOffer ''Bob''), NewRTCPeerConnection ''Bob'', AddTrack ''Bob'' 5,
      Log (ConnectingTo ''Bob''), SetRemoteDescription ''Bob'' (SdpOffer 9), CreateAnswer ''Bob'',
      SetLocalDescription ''Bob'' (SdpAnswer 2), WsSend (Answer ''Alex'' ''Bob'' (SdpAnswer 2)),
      Log (SentAnswer ''Bob''), UpdateUI]"
proof -
  have t: "localTracks ex_effects = [5]"
    by (simp add: localTracks_def getProcessedStream_def ex_effects_def)
  have c: "createPeerConnection ex_effects ''Bob'' (webrtc ex_app) =
     (ex_pc 0 Stable, storeConnection ''Bob'' (ex_pc 0 Stable) (webrtc ex_app),
      [NewRTCPeerConnection ''Bob'', AddTrack ''Bob'' 5, Log (ConnectingTo ''Bob'')])"
    using createPeerConnection_new [OF ex_app_facts(3), of ex_effects] by (simp add: ex_new t)
  have e: "audioEffects ex_app = ex_effects" "app_ws ex_app = Some 1" by (simp_all add: ex_app_def)
  show ?thesis
    by (simp add: ex_app_facts(1) signalOffer_def e c Let_def ws_send_def ex_transport_def
        ex_pc_def split: prod.splits)
qed

text \<open>
  C5. A request for the effect that is current, when an output stream exists, and a
  request that comes less than 1000 ms after the last accepted change, when an output
  stream exists, change nothing: the manager and the connections are as before, no
  stream is created and no track is replaced. With an input node present nothing is
  written to the console either.
\<close>

theorem applyEffect_dropped:
  "(currentEffect ae = effect \<and> processedStream ae \<noteq> None)
    \<or> (processedStream ae \<noteq> None \<and> now - lastEffectChange ae < 1000) \<longrightarrow>
   (\<exists>ev. applyEffect t effect peerConns now dest ae = (ae, peerConns, ev)
      \<and> (ev = [] \<or> ev = [Log NoInputNode])
      \<and> (inputNode ae \<noteq> None \<longrightarrow> ev = []))"
  by (auto simp add: applyEffect_def)

lemma ex_effect_accepted:
  "applyEffect ex_transport ''cave'' (Some (peerConnections ex_linked)) 2000 6 ex_effects =
     (ex_effects\<lparr>lastEffectChange := 2000, dynamicNodes := [FeedbackDelay, Reverb, EQ3],
                 processedStream := Some 6, currentEffect := ''cave''\<rparr>,
      Some [(''Steve'', (ex_pc 0 Stable)\<lparr>senders := [Some 6]\<rparr>)],
      [Log (ChangingEffect ''none'' ''cave''), CreateMediaStreamDestination 6,
       ReplaceTrack ''Steve'' 6, Log (TrackReplaced ''Steve'' ''cave''), Log (EffectApplied 1)])"
  by (simp add: applyEffect_def ex_linked_eq ex_effects_def new_AudioEffectsManager_def
      effectNodes_def ex_pc_def ex_transport_def Let_def)

theorem applyEffect_dropped_witness:
  "currentEffect ex_effects = ''none'' \<and> processedStream ex_effects \<noteq> None
   \<and> applyEffect ex_transport ''none'' (Some (peerConnections ex_linked)) 5000 6 ex_effects
       = (ex_effects, Some (peerConnections ex_linked), [])
   \<and> (1500 :: int) - lastEffectChange ex_effects < 1000
   \<and> applyEffect ex_transport ''cave'' (Some (peerConnections ex_linked)) 1500 6 ex_effects
       = (ex_effects, Some (peerConnections ex_linked), [])"
proof -
  have f: "currentEffect ex_effects = ''none''" "processedStream ex_effects \<noteq> None"
    "inputNode ex_effects \<noteq> None" "(1500 :: int) - lastEffectChange ex_effects < 1000"
    by (simp_all add: ex_effects_def new_AudioEffectsManager_def)
  from applyEffect_dropped [where ae = ex_effects and effect = "''none''" and now = 5000
      and t = ex_transport and peerConns = "Some (peerConnections ex_linked)" and dest = 6] f
  have 1: "applyEffect ex_transport ''none'' (Some (peerConnections ex_linked)) 5000 6 ex_effects
       = (ex_effects, Some (peerConnections ex_linked), [])" by auto
  from applyEffect_dropped [where ae = ex_effects and effect = "''cave''" and now = 1500
      and t = ex_transport and peerConns = "Some (peerConnections ex_linked)" and dest = 6] f
  have 2: "applyEffect ex_transport ''cave'' (Some (peerConnections ex_linked)) 1500 6 ex_effects
       = (ex_effects, Some (peerConnections ex_linked), [])" by auto
  from f 1 2 show ?thesis by simp
qed

theorem onnegotiationneeded_guards_witness:
  "getPeerConnection ex_linked ''Steve'' = Some (ex_pc 0 Stable)
   \<and> isInitialConnection (ex_pc 0 Stable)
   \<and> onnegotiationneeded ex_transport ''Steve'' ex_linked
       = (ex_linked, [Log (SkipInitialConnection ''Steve'')])
   \<and> getPeerConnection (ex_established HaveLocalOffer) ''Steve''
       = Some ((ex_pc 0 HaveLocalOffer)\<lparr>isInitialConnection := False, connectionState := Connected\<rparr>)
   \<and> onnegotiationneeded ex_transport ''Steve'' (ex_established HaveLocalOffer)
       = (ex_established HaveLocalOffer,
          [Log (RenegotiationNeeded ''Steve''), Log (SkipSignalingState ''Steve'' HaveLocalOffer)])
   \<and> snd (onnegotiationneeded ex_transport ''Steve'' (ex_established Stable))
       = [Log (RenegotiationNeeded ''Steve''), CreateOffer ''Steve'',
          SetLocalDescription ''Steve'' (SdpOffer 1),
          WsSend (Offer ''Alex'' ''Steve'' (SdpOffer 1)), Log (RenegotiationOfferSent ''Steve'')]
   \<and> CreateOffer ''Steve'' \<in> set (snd (onnegotiationneeded ex_transport ''Steve'' (ex_established Stable)))
   \<and> \<not> isInitialConnection
          ((ex_pc 0 Stable)\<lparr>isInitialConnection := False, connectionState := Connected\<rparr>)
   \<and> signalingState ((ex_pc 0 Stable)\<lparr>isInitialConnection := False, connectionState := Connected\<rparr>)
       = Stable"
proof -
  let ?pcL = "(ex_pc 0 HaveLocalOffer)\<lparr>isInitialConnection := False, connectionState := Connected\<rparr>"
  let ?pcS = "(ex_pc 0 Stable)\<lparr>isInitialConnection := False, connectionState := Connected\<rparr>"
  have g1: "getPeerConnection ex_linked ''Steve'' = Some (ex_pc 0 Stable)"
    by (simp add: ex_linked_eq getPeerConnection_def)
  have g2: "getPeerConnection (ex_established HaveLocalOffer) ''Steve'' = Some ?pcL"
    by (simp add: ex_established_def getPeerConnection_store)
  have g3: "getPeerConnection (ex_established Stable) ''Steve'' = Some ?pcS"
    by (simp add: ex_established_def getPeerConnection_store)
  have i: "isInitialConnection (ex_pc 0 Stable)" by (simp add: ex_pc_def)
  from onnegotiationneeded_guards [OF g1, of ex_transport] i
  have 1: "onnegotiationneeded ex_transport ''Steve'' ex_linked
       = (ex_linked, [Log (SkipInitialConnection ''Steve'')])" by simp
  from onnegotiationneeded_guards [OF g2, of ex_transport]
  have 2: "onnegotiationneeded ex_transport ''Steve'' (ex_established HaveLocalOffer)
       = (ex_established HaveLocalOffer,
          [Log (RenegotiationNeeded ''Steve''), Log (SkipSignalingState ''Steve'' HaveLocalOffer)])"
    by (simp add: ex_pc_def)
  have o: "createOffer ex_transport ''Steve'' ?pcS = Some (SdpOffer 1)"
    "setLocalDescription ex_transport ''Steve'' ?pcS (SdpOffer 1) = Some HaveLocalOffer"
    "ws (ex_established Stable) = Some 1" "currentGamertag (ex_established Stable) = ''Alex''"
    "\<not> isInitialConnection ?pcS" "signalingState ?pcS = Stable"
    by (simp_all add: ex_transport_def ex_pc_def ex_established_def store_fields ex_manager_def)
  from onnegotiationneeded_guards [OF g3, of ex_transport "SdpOffer 1" HaveLocalOffer] o
  have 3: "snd (onnegotiationneeded ex_transport ''Steve'' (ex_established Stable))
       = [Log (RenegotiationNeeded ''Steve''), CreateOffer ''Steve'',
          SetLocalDescription ''Steve'' (SdpOffer 1),
          WsSend (Offer ''Alex'' ''Steve'' (SdpOffer 1)), Log (RenegotiationOfferSent ''Steve'')]"
    by simp
  then have m: "CreateOffer ''Steve'' \<in> set (snd (onnegotiationneeded ex_transport ''Steve'' (ex_established Stable)))"
    by simp
  with onnegotiationneeded_guards [OF g3, of ex_transport]
  have 4: "\<not> isInitialConnection ?pcS \<and> signalingState ?pcS = Stable" by blast
  from g1 g2 i 1 2 3 m 4 show ?thesis by simp
qed

theorem createPeerConnection_idempotent_witness:
  "getPeerConnection ex_manager ''Steve'' = None
   \<and> isInitialConnection (fst (createPeerConnection ex_effects ''Steve'' ex_manager))
   \<and> reconnectAttempts (fst (createPeerConnection ex_effects ''Steve'' ex_manager)) = 0
   \<and> NewRTCPeerConnection ''Steve'' \<in> set (snd (snd (createPeerConnection ex_effects ''Steve'' ex_manager)))
   \<and> getPeerConnection ex_linked ''Steve'' = Some (ex_pc 0 Stable)
   \<and> createPeerConnection ex_effects ''Steve'' ex_linked =
       (ex_pc 0 Stable, ex_linked, [Log (AlreadyExists ''Steve'')])"
proof -
  have g0: "getPeerConnection ex_manager ''Steve'' = None"
    by (simp add: getPeerConnection_def ex_manager_def)
  have g1: "getPeerConnection ex_linked ''Steve'' = Some (ex_pc 0 Stable)"
    by (simp add: ex_linked_eq getPeerConnection_def)
  from createPeerConnection_idempotent [where w = ex_manager and g = "''Steve''" and ae = ex_effects
      and ae' = ex_effects] g0
  obtain pc' w' ev where "createPeerConnection ex_effects ''Steve'' ex_manager = (pc', w', ev)"
    "isInitialConnection pc'" "reconnectAttempts pc' = 0" "NewRTCPeerConnection ''Steve'' \<in> set ev"
    by auto
  then have 0: "isInitialConnection (fst (createPeerConnection ex_effects ''Steve'' ex_manager))
    \<and> reconnectAttempts (fst (createPeerConnection ex_effects ''Steve'' ex_manager)) = 0
    \<and> NewRTCPeerConnection ''Steve'' \<in> set (snd (snd (createPeerConnection ex_effects ''Steve'' ex_manager)))"
    by simp
  from createPeerConnection_idempotent [where w = ex_linked and g = "''Steve''"
      and pc = "ex_pc 0 Stable" and ae = ex_effects] g1
  have 1: "createPeerConnection ex_effects ''Steve'' ex_linked =
       (ex_pc 0 Stable, ex_linked, [Log (AlreadyExists ''Steve'')])" by simp
  from g0 g1 0 1 show ?thesis by simp
qed

end
